theory Spec2Isabelle
  imports Main "HOL-Library.AList"
begin

section \<open>Python values, strings and exceptions\<close>

text \<open>
  The converters read a spreadsheet with pandas and walk the cells. A cell, once the
  sheet is loaded and every missing cell replaced by the empty string, holds a Python
  object: text, a whole number, a truth value, a float or a date with time. A float is
  kept as the three things the converters can observe of it: its sign (for truthiness
  and for comparison with zero) and its \<open>str()\<close> rendering. Text is modelled over
  8-bit characters; case mapping is the ASCII one.
\<close>

datatype fsign = FNeg | FZero | FPos

record pydatetime =
  year :: int
  month :: int
  day :: int
  hour :: int
  minute :: int
  second :: int

datatype pyval =
    PStr string
  | PInt int
  | PBool bool
  | PFloat fsign string
  | PDateTime pydatetime

text \<open>
  The exceptions the three scripts define, and the built-in ones their bodies can raise.
  Each user-defined exception carries its message.
\<close>

datatype pyerror =
    EmptyValueError string
  | DomainValueError string
  | LengthValueRequiredError string
  | NoFilesFoundError string
  | UnassinedIntegerError string
  | ConditionalError string
  | NotImplementedError string
  | IntegerValueError
  | StringValueError
  | AssertionError string
  | KeyError string
  | IndexError
  | TypeError
  | AttributeError
  | UnboundLocalError string

definition then_do :: "pyerror + 'a \<Rightarrow> ('a \<Rightarrow> pyerror + 'b) \<Rightarrow> pyerror + 'b" where
  "then_do m f = (case m of Inl e \<Rightarrow> Inl e | Inr x \<Rightarrow> f x)"

fun for_each :: "('a \<Rightarrow> pyerror + 'b) \<Rightarrow> 'a list \<Rightarrow> pyerror + 'b list" where
  "for_each f [] = Inr []"
| "for_each f (x # xs) =
     then_do (f x) (\<lambda>y. then_do (for_each f xs) (\<lambda>ys. Inr (y # ys)))"

subsection \<open>Text\<close>

definition whitespace :: string where
  "whitespace = [CHR 0x09, CHR 0x0A, CHR 0x0B, CHR 0x0C, CHR 0x0D, CHR 0x1C, CHR 0x1D, CHR 0x1E,
     CHR 0x1F, CHR 0x20, CHR 0x85, CHR 0xA0]"

definition is_space :: "char \<Rightarrow> bool" where
  "is_space c = (c \<in> set whitespace)"

definition strip :: "string \<Rightarrow> string" where
  "strip s = rev (dropWhile is_space (rev (dropWhile is_space s)))"

definition ascii_lowercase :: string where
  "ascii_lowercase = ''abcdefghijklmnopqrstuvwxyz''"

definition ascii_uppercase :: string where
  "ascii_uppercase = ''ABCDEFGHIJKLMNOPQRSTUVWXYZ''"

definition upper_char :: "char \<Rightarrow> char" where
  "upper_char c = (case map_of (zip ascii_lowercase ascii_uppercase) c of None \<Rightarrow> c | Some u \<Rightarrow> u)"

definition lower_char :: "char \<Rightarrow> char" where
  "lower_char c = (case map_of (zip ascii_uppercase ascii_lowercase) c of None \<Rightarrow> c | Some u \<Rightarrow> u)"

definition upper :: "string \<Rightarrow> string" where
  "upper s = map upper_char s"

definition lower :: "string \<Rightarrow> string" where
  "lower s = map lower_char s"

definition digit_char :: "int \<Rightarrow> char" where
  "digit_char d = ''0123456789'' ! nat d"

text \<open>The decimal digits of a whole number that is not negative.\<close>

function digits :: "int \<Rightarrow> string" where
  "digits n = (if n < 10 then [digit_char n] else digits (n div 10) @ [digit_char (n mod 10)])"
  by pat_completeness auto
termination
  by (relation "measure nat") auto

declare digits.simps [simp del]

definition str_int :: "int \<Rightarrow> string" where
  "str_int i = (if i < 0 then CHR ''-'' # digits (- i) else digits i)"

definition zero_pad :: "nat \<Rightarrow> int \<Rightarrow> string" where
  "zero_pad w n = replicate (w - length (str_int n)) CHR ''0'' @ str_int n"

definition date_iso :: "pydatetime \<Rightarrow> string" where
  "date_iso d = zero_pad 4 (year d) @ ''-'' @ zero_pad 2 (month d) @ ''-'' @ zero_pad 2 (day d)"

definition time_iso :: "pydatetime \<Rightarrow> string" where
  "time_iso d = zero_pad 2 (hour d) @ '':'' @ zero_pad 2 (minute d) @ '':'' @ zero_pad 2 (second d)"

subsection \<open>Operations on cell values\<close>

text \<open>\<open>str(v)\<close>.\<close>

fun py_str :: "pyval \<Rightarrow> string" where
  "py_str (PStr s) = s"
| "py_str (PInt i) = str_int i"
| "py_str (PBool b) = (if b then ''True'' else ''False'')"
| "py_str (PFloat sg r) = r"
| "py_str (PDateTime d) = date_iso d @ '' '' @ time_iso d"

text \<open>The truth value of \<open>v\<close> in a condition (\<open>if v and ...\<close>).\<close>

fun truthy :: "pyval \<Rightarrow> bool" where
  "truthy (PStr s) = (s \<noteq> [])"
| "truthy (PInt i) = (i \<noteq> 0)"
| "truthy (PBool b) = b"
| "truthy (PFloat sg r) = (sg \<noteq> FZero)"
| "truthy (PDateTime d) = True"

text \<open>\<open>len(v)\<close>: only text has a length.\<close>

fun py_len :: "pyval \<Rightarrow> pyerror + nat" where
  "py_len (PStr s) = Inr (length s)"
| "py_len v = Inl TypeError"

text \<open>\<open>v.date()\<close>: only a date with time has the method.\<close>

fun py_date :: "pyval \<Rightarrow> pyerror + string" where
  "py_date (PDateTime d) = Inr (date_iso d)"
| "py_date v = Inl AttributeError"

text \<open>\<open>type(v) != int or v < 0\<close>, the test of the unsigned-integer fields.\<close>

fun not_unsigned :: "pyval \<Rightarrow> bool" where
  "not_unsigned (PInt i) = (i < 0)"
| "not_unsigned v = True"

subsection \<open>Dictionaries\<close>

text \<open>
  \<open>{i[0]: i[1] for i in rows}\<close>: a later row with the same key replaces the value and
  keeps the place of the first one.
\<close>

definition dict_of :: "(string \<times> 'v) list \<Rightarrow> (string \<times> 'v) list" where
  "dict_of rows = foldl (\<lambda>d kv. AList.update (fst kv) (snd kv) d) [] rows"

definition getitem :: "(string \<times> 'v) list \<Rightarrow> string \<Rightarrow> pyerror + 'v" where
  "getitem d k = (case map_of d k of None \<Rightarrow> Inl (KeyError k) | Some v \<Rightarrow> Inr v)"

section \<open>The element tree\<close>

datatype xml =
  Element (tag: string) (attrib: "(string \<times> string) list") (content: "string option")
    (children: "xml list")

definition leaf :: "string \<Rightarrow> string \<Rightarrow> xml" where
  "leaf t s = Element t [] (Some s) []"

definition node :: "string \<Rightarrow> xml list \<Rightarrow> xml" where
  "node t cs = Element t [] None cs"

text \<open>\<open>e.find(t)\<close> and \<open>e.findtext(t)\<close>: the first child with the tag.\<close>

definition find_child :: "string \<Rightarrow> xml \<Rightarrow> xml option" where
  "find_child t e = List.find (\<lambda>c. tag c = t) (children e)"

definition findtext :: "string \<Rightarrow> xml \<Rightarrow> string option" where
  "findtext t e = (case find_child t e of None \<Rightarrow> None | Some c \<Rightarrow> content c)"

text \<open>\<open>os.path.splitext(file)[0]\<close> on a POSIX path.\<close>

definition splitext_root :: "string \<Rightarrow> string" where
  "splitext_root p =
     (let base = rev (takeWhile (\<lambda>c. c \<noteq> CHR ''/'') (rev p));
          dir = take (length p - length base) p;
          ext = rev (takeWhile (\<lambda>c. c \<noteq> CHR ''.'') (rev base));
          stem = take (length base - length ext - 1) base
      in if CHR ''.'' \<in> set base \<and> (\<exists>c \<in> set stem. c \<noteq> CHR ''.'')
         then dir @ stem else p)"

text \<open>The identifier column holds text or whole numbers.\<close>

datatype rowid = IdStr string | IdInt int

fun str_id :: "rowid \<Rightarrow> string" where
  "str_id (IdStr s) = s"
| "str_id (IdInt i) = str_int i"

text \<open>\<open>range(a, b)\<close>, and the identifiers \<open>[str(i) for i in range(a, b)]\<close>.\<close>

definition py_range :: "int \<Rightarrow> int \<Rightarrow> int list" where
  "py_range a b = [a..b - 1]"

definition str_range :: "int \<Rightarrow> int \<Rightarrow> rowid list" where
  "str_range a b = map (\<lambda>i. IdStr (str_int i)) (py_range a b)"

section \<open>Messages\<close>

text \<open>The texts of the exceptions, named so that the definitions below stay readable.\<close>

definition msg_aum_base_unsigned :: string where
  "msg_aum_base_unsigned = ''AUMAmountInBaseCurrency must be UnassigneIinteger (not contain decimals & not negative). Check value in row 47 column D''"

definition msg_aum_euro_empty :: string where
  "msg_aum_euro_empty = ''AUMAmountInEuro field cannot be empty! Check value in row 46 column D''"

definition msg_aum_euro_unsigned :: string where
  "msg_aum_euro_unsigned = ''AUMAmountInEuro must be UnassigneIinteger (not contain decimals and not negative). Check value in row 46 column D''"

definition msg_instrument_amount_empty :: string where
  "msg_instrument_amount_empty = ''AggregatedValueAmount field cannot be empty! Check values in rows 40-44, column C of template''"

definition msg_instrument_amount_unsigned :: string where
  "msg_instrument_amount_unsigned = ''AggregatedValueAmount must be UnassigneIinteger (not contain decimals & not negative). Check value in row 40-44 column D''"

definition msg_market_amount_unsigned :: string where
  "msg_market_amount_unsigned = ''AggregatedValueAmount must be not contain decimals & should not be a negative number. Check value in row 32-36 column D''"

definition msg_assumption_length :: string where
  "msg_assumption_length = ''AssumptionDescription string required in this field should not be greater 300!''"

definition msg_aifm_fx_empty :: string where
  "msg_aifm_fx_empty = ''FXEURReferenceRateType or FXEURRate fields cannot be empty! Check value in rows 49-50 column D''"

definition msg_last_reporting_flag :: string where
  "msg_last_reporting_flag = ''LastReportingFlag field cannot be empty!''"

definition msg_market_code_required :: string where
  "msg_market_code_required = ''MarketCode is required for MIC market codes!''"

definition msg_market_code_length :: string where
  "msg_market_code_length = ''Maximum length of 4 is required for MarketCode!''"

definition msg_no_files :: string where
  "msg_no_files = ''No excel files selected. Specify path to excel document and try again!''"

definition msg_quarter_empty :: string where
  "msg_quarter_empty = ''ReportingObligationChangeQuarter field cannot be empty!''"

definition msg_market_domain :: string where
  "msg_market_domain = ''Required principal market values in for AIFM trades are 'MIC', 'XXX', 'OTC' & 'NOT'. Check values in rows 32-36, column C of template''"

definition msg_instrument_subasset_empty :: string where
  "msg_instrument_subasset_empty = ''SubAssetType field cannot be empty! Check values in rows 40-44, column C of template''"

definition xsi_namespace :: string where
  "xsi_namespace = ''http://www.w3.org/2001/XMLSchema-instance''"

section \<open>The sheet\<close>

text \<open>
  A row of the data frame once its columns are named and the angle brackets stripped from
  the tags. \<open>AIF.py\<close> names fifteen columns; \<open>AIFM.py\<close> names the first five and reads
  no other.
\<close>

record row =
  xmlTags :: string
  Id :: rowid
  XMLDescription :: pyval
  Input_1 :: pyval
  Input_2 :: pyval
  Input_3 :: pyval
  Input_4 :: pyval
  Input_5 :: pyval
  Input_6 :: pyval
  Input_7 :: pyval
  Input_8 :: pyval
  Input_9 :: pyval
  Input_10 :: pyval
  Input_11 :: pyval
  Input_12 :: pyval

text \<open>\<open>df[df.Id.isin(ids)][['xmlTags', 'Input_1']].values.tolist()\<close>\<close>

definition tag_input :: "rowid list \<Rightarrow> row list \<Rightarrow> (string \<times> pyval) list" where
  "tag_input ids df = map (\<lambda>r. (xmlTags r, Input_1 r)) (filter (\<lambda>r. Id r \<in> set ids) df)"

text \<open>
  What a run leaves behind: the files written, in order, each with its path and tree; the
  entries of the error log; what \<open>print(e)\<close> printed; and the exception that left the
  function, if one did.
\<close>

datatype logentry = Exc pyerror | Msg string

record outcome =
  written :: "(string \<times> xml) list"
  logged :: "logentry list"
  printed :: "pyerror list"
  raised :: "pyerror option"

section \<open>Lines shared by \<open>AIF.py\<close> and \<open>AIFM.py\<close>\<close>

text \<open>Rows 4 to 9: all required, the two period dates cut to the date.\<close>

definition record_field :: "string \<times> pyval \<Rightarrow> pyerror + xml" where
  "record_field kv = (case kv of (k, v) \<Rightarrow>
     if v \<noteq> PStr '''' then
       if k \<notin> set [''ReportingPeriodStartDate'', ''ReportingPeriodEndDate'']
       then Inr (leaf k (strip (py_str v)))
       else then_do (py_date v) (\<lambda>d. Inr (leaf k (strip d)))
     else Inl (EmptyValueError (k @ '' field cannot be empty!'')))"

text \<open>
  Rows 10 to 15. The two scripts differ in the prefix of three tags, \<open>AIF\<close> or
  \<open>AIFM\<close>, and in nothing else.
\<close>

definition obligation :: "string \<Rightarrow> (string \<times> pyval) list \<Rightarrow> pyerror + xml list" where
  "obligation prefix d =
     then_do (getitem d (prefix @ ''ReportingObligationChangeFrequencyCode'')) (\<lambda>freq.
     then_do (getitem d (prefix @ ''ReportingObligationChangeContentsCode'')) (\<lambda>cont.
     then_do (if truthy freq \<or> cont \<noteq> PStr ''''
              then then_do (getitem d (prefix @ ''ReportingObligationChangeQuarter'')) (\<lambda>q.
                     if q \<noteq> PStr ''''
                     then Inr [leaf (prefix @ ''ReportingObligationChangeQuarter'') (strip (py_str q))]
                     else Inl (EmptyValueError
                            (prefix @ msg_quarter_empty)))
              else Inr []) (\<lambda>quarter.
     then_do (getitem d ''LastReportingFlag'') (\<lambda>lrf.
     then_do (if lrf \<noteq> PStr ''''
              then Inr [leaf ''LastReportingFlag'' (strip (lower (py_str lrf)))]
              else Inl (EmptyValueError msg_last_reporting_flag)) (\<lambda>flag.
     then_do (getitem d ''QuestionNumber'') (\<lambda>qn.
     then_do (if truthy qn
              then then_do (getitem d ''AssumptionDescription'') (\<lambda>ad.
                     if ad = PStr ''''
                     then then_do (py_len ad) (\<lambda>n.
                            if n > 300
                            then Inl (LengthValueRequiredError
                              msg_assumption_length)
                            else Inr [leaf ''QuestionNumber'' (strip (py_str qn)),
                                      leaf ''AssumptionDescription'' (strip (py_str ad))])
                     else Inr [])
              else Inr []) (\<lambda>assumption.
     Inr ((if freq \<noteq> PStr ''''
           then [leaf (prefix @ ''ReportingObligationChangeFrequencyCode'') (strip (py_str freq))]
           else [])
          @ (if cont \<noteq> PStr ''''
             then [leaf (prefix @ ''ReportingObligationChangeContentsCode'') (strip (py_str cont))]
             else [])
          @ quarter @ flag @ assumption))))))))"

text \<open>Rows 16 and on of the record info: all required.\<close>

definition required_field :: "string \<Rightarrow> string \<times> pyval \<Rightarrow> pyerror + xml" where
  "required_field msg kv = (case kv of (k, v) \<Rightarrow>
     if v \<noteq> PStr '''' then Inr (leaf k (strip (py_str v)))
     else Inl (EmptyValueError (k @ msg)))"

section \<open>AIFM.py\<close>

definition strftime_aifm :: "pydatetime \<Rightarrow> string" where
  "strftime_aifm d = date_iso d @ ''T'' @ time_iso d"

text \<open>Lines 134 to 148: the check on the first two header rows and the root's attributes.\<close>

definition aifm_root_attrib :: "string \<Rightarrow> (string \<times> pyval) list \<Rightarrow> pyerror + (string \<times> string) list" where
  "aifm_root_attrib generated_on headerFileKeys =
     (case headerFileKeys of
        (k0, v0) # (k1, v1) # rest \<Rightarrow>
          if truthy v0 \<and> v1 = PStr ''''
          then Inl (EmptyValueError ('' '' @ k0 @ '' and '' @ k1 @ '' fields cannot be empty! ''))
          else Inr (AList.update ''xmlns:xsi'' xsi_namespace
                   (AList.update k1 (strip (py_str v1))
                   (AList.update k0 (strip (py_str v0))
                   (AList.update ''CreationDateAndTime'' generated_on
                   (AList.update ''xsi:noNamespaceSchemaLocation'' ''AIFMD_DATMAN_V1.2.xsd'' [])))))
      | _ \<Rightarrow> Inl IndexError)"

text \<open>Lines 236 to 260: rows 22 to 25, the identifiers of the manager.\<close>

definition aifm_identifier :: "(string \<times> pyval) list \<Rightarrow> pyerror + xml list" where
  "aifm_identifier d =
     (if d \<noteq> [] then
        then_do (getitem d ''AIFMIdentifierLEI'') (\<lambda>lei.
        then_do (getitem d ''AIFMIdentifierBIC'') (\<lambda>bic.
        then_do (getitem d ''ReportingMemberState'') (\<lambda>rms.
        then_do (if truthy rms \<and> rms \<noteq> PStr ''''
                 then then_do (getitem d ''AIFMNationalCode'') (\<lambda>nc.
                        Inr [leaf ''ReportingMemberState'' (strip (py_str rms)),
                             leaf ''AIFMNationalCode'' (strip (py_str nc))])
                 else Inr []) (\<lambda>national.
        Inr [node ''AIFMIdentifier''
               ((if lei \<noteq> PStr '''' then [leaf ''AIFMIdentifierLEI'' (strip (py_str lei))] else [])
                @ (if bic \<noteq> PStr '''' then [leaf ''AIFMIdentifierBIC'' (strip (py_str bic))] else [])
                @ national)]))))
      else Inr [])"

text \<open>Lines 262 to 311: the five principal markets, ranked by a counter.\<close>

definition ranks :: "int list" where
  "ranks = py_range 1 6"

definition principalMRows :: "rowid list" where
  "principalMRows = map IdStr [''1st'', ''2nd'', ''3rd'', ''4th'', ''5th'']"

definition principalMarkets :: "row list \<Rightarrow> (pyval \<times> pyval \<times> pyval) list" where
  "principalMarkets df =
     map (\<lambda>r. (XMLDescription r, Input_1 r, Input_2 r)) (filter (\<lambda>r. Id r \<in> set principalMRows) df)"

definition market_codes :: "pyval list" where
  "market_codes = map PStr [''MIC'', ''XXX'', ''OTC'', ''NOT'']"

definition AIFMFivePrincipalMarket :: "nat \<Rightarrow> pyval \<times> pyval \<times> pyval \<Rightarrow> pyerror + xml" where
  "AIFMFivePrincipalMarket counter principalMarket = (case principalMarket of (ct, code, amount) \<Rightarrow>
     if ct \<in> set market_codes then
       then_do (if counter < length ranks then Inr (ranks ! counter) else Inl IndexError) (\<lambda>rank.
       then_do (if ct = PStr ''MIC'' \<and> code = PStr ''''
                then Inl (EmptyValueError msg_market_code_required)
                else Inr ()) (\<lambda>u.
       then_do (if ct = PStr ''MIC''
                then then_do (py_len code) (\<lambda>n.
                       if n > 4
                       then Inl (LengthValueRequiredError
                              msg_market_code_length)
                       else Inr [leaf ''MarketCode'' (strip (py_str code))])
                else Inr []) (\<lambda>marketCode.
       then_do (if ct \<noteq> PStr ''NOT''
                then if not_unsigned amount
                     then Inl (UnassinedIntegerError
                       msg_market_amount_unsigned)
                     else Inr [leaf ''AggregatedValueAmount'' (strip (py_str amount))]
                else Inr []) (\<lambda>aggregated.
       Inr (node ''AIFMFivePrincipalMarket''
              ([leaf ''Ranking'' (strip (str_int rank)),
                node ''MarketIdentification''
                  (leaf ''MarketCodeType'' (strip (py_str ct)) # marketCode)]
               @ aggregated))))))
     else Inl (DomainValueError
       msg_market_domain))"

fun AIFMPrincipalMarkets :: "nat \<Rightarrow> (pyval \<times> pyval \<times> pyval) list \<Rightarrow> pyerror + xml list" where
  "AIFMPrincipalMarkets counter [] = Inr []"
| "AIFMPrincipalMarkets counter (principalMarket # rest) =
     then_do (AIFMFivePrincipalMarket counter principalMarket) (\<lambda>e.
     then_do (AIFMPrincipalMarkets (Suc counter) rest) (\<lambda>es. Inr (e # es)))"

text \<open>Lines 314 to 346: the principal instruments, ranked by their identifier.\<close>

definition principalInstruments :: "row list \<Rightarrow> (rowid \<times> pyval \<times> pyval) list" where
  "principalInstruments df =
     map (\<lambda>r. (Id r, XMLDescription r, Input_1 r)) (filter (\<lambda>r. Id r \<in> set (map IdInt (py_range 1 6))) df)"

definition AIFMPrincipalInstrument :: "rowid \<times> pyval \<times> pyval \<Rightarrow> pyerror + xml" where
  "AIFMPrincipalInstrument principalInstrument = (case principalInstrument of (rid, sub, amount) \<Rightarrow>
     if sub = PStr ''''
     then Inl (EmptyValueError
       msg_instrument_subasset_empty)
     else if amount = PStr ''''
     then Inl (EmptyValueError
       msg_instrument_amount_empty)
     else
       then_do (if sub \<noteq> PStr ''NTA_NTA_NOTA''
                then if not_unsigned amount
                     then Inl (UnassinedIntegerError
                       msg_instrument_amount_unsigned)
                     else Inr [leaf ''AggregatedValueAmount'' (strip (py_str amount))]
                else Inr []) (\<lambda>aggregated.
       Inr (node ''AIFMPrincipalInstrument''
              ([leaf ''Ranking'' (strip (str_id rid)), leaf ''SubAssetType'' (strip (py_str sub))]
               @ aggregated))))"

text \<open>Lines 353 to 402: the assets under management and the base currency.\<close>

definition aifm_base_currency :: "(string \<times> pyval) list \<Rightarrow> pyerror + xml list" where
  "aifm_base_currency d =
     then_do (getitem d ''AUMAmountInBaseCurrency'') (\<lambda>aum.
     if truthy aum then
       then_do (getitem d ''BaseCurrency'') (\<lambda>bc.
       if bc \<noteq> PStr '''' then
         if not_unsigned aum
         then Inl (UnassinedIntegerError
           msg_aum_base_unsigned)
         else
           then_do (if strip (upper (py_str bc)) \<noteq> ''EUR''
                    then then_do (getitem d ''FXEURReferenceRateType'') (\<lambda>rt.
                         if truthy rt then
                           then_do (getitem d ''FXEURRate'') (\<lambda>rate.
                           if rate \<noteq> PStr ''''
                           then Inr [leaf ''FXEURReferenceRateType'' (strip (py_str rt)),
                                     leaf ''FXEURRate'' (strip (py_str rate))]
                           else Inl (EmptyValueError
                             msg_aifm_fx_empty))
                         else Inl (EmptyValueError
                           msg_aifm_fx_empty))
                    else Inr []) (\<lambda>fx.
           then_do (if strip (upper (py_str bc)) \<noteq> []
                    then Inr True
                    else then_do (getitem d ''FXEUROtherReferenceRateDescription'') (\<lambda>od.
                           Inr (od = PStr ''OTH''))) (\<lambda>other.
           then_do (if other
                    then then_do (getitem d ''FXEUROtherReferenceRateDescription'') (\<lambda>od.
                           Inr [leaf ''FXEUROtherReferenceRateDescription'' (strip (py_str od))])
                    else Inr []) (\<lambda>description.
           Inr ([leaf ''BaseCurrency'' (strip (upper (py_str bc))),
                 leaf ''AUMAmountInBaseCurrency'' (strip (py_str aum))]
                @ fx @ description))))
       else Inr [])
     else Inr [])"

definition aifm_aum :: "(string \<times> pyval) list \<Rightarrow> pyerror + xml list" where
  "aifm_aum d =
     then_do (getitem d ''AUMAmountInEuro'') (\<lambda>euro.
     if euro \<noteq> PStr '''' then
       if not_unsigned euro
       then Inl (UnassinedIntegerError
         msg_aum_euro_unsigned)
       else then_do (aifm_base_currency d) (\<lambda>base.
              Inr [leaf ''AUMAmountInEuro'' (strip (py_str euro)),
                   node ''AIFMBaseCurrencyDescription'' base])
     else Inl (EmptyValueError
       msg_aum_euro_empty))"

text \<open>
  Lines 150 to 402: the record info, section after section, the first error ending it.
  The sections up to the identifiers come first, then the markets and what follows.
\<close>

definition aifm_record_head :: "row list \<Rightarrow> pyerror + xml list \<times> xml list" where
  "aifm_record_head df =
     then_do (for_each record_field (dict_of (tag_input (str_range 4 10) df))) (\<lambda>info.
     then_do (obligation ''AIFM'' (dict_of (tag_input (str_range 10 16) df))) (\<lambda>change.
     then_do (for_each (required_field '' field cannot be empty!'')
                (dict_of (tag_input (str_range 16 22) df))) (\<lambda>manager.
     then_do (aifm_identifier (dict_of (tag_input (str_range 22 26) df))) (\<lambda>identifier.
     Inr (info @ change @ manager, identifier)))))"

definition AIFMRecordInfo :: "row list \<Rightarrow> pyerror + xml" where
  "AIFMRecordInfo df =
     then_do (aifm_record_head df) (\<lambda>head.
     then_do (AIFMPrincipalMarkets 0 (principalMarkets df)) (\<lambda>markets.
     then_do (for_each AIFMPrincipalInstrument (principalInstruments df)) (\<lambda>instruments.
     then_do (aifm_aum (dict_of (tag_input (str_range 33 39) df))) (\<lambda>aum.
     Inr (node ''AIFMRecordInfo''
            (fst head @
             [node ''AIFMCompleteDescription''
                (snd head @ [node ''AIFMPrincipalMarkets'' markets,
                             node ''AIFMPrincipalInstruments'' instruments] @ aum)]))))))"

text \<open>
  Where the market elements sit in a finished tree: the root's only child is the record
  info, its last child the complete description.
\<close>

definition aifm_markets :: "xml \<Rightarrow> xml list" where
  "aifm_markets root =
     (case find_child ''AIFMPrincipalMarkets'' (last (children (hd (children root)))) of
        None \<Rightarrow> [] | Some m \<Rightarrow> children m)"

definition market_code_type :: "xml \<Rightarrow> string option" where
  "market_code_type m =
     (case find_child ''MarketIdentification'' m of
        None \<Rightarrow> None | Some i \<Rightarrow> findtext ''MarketCodeType'' i)"

text \<open>The body of the loop over the files: one sheet to one tree.\<close>

definition aifm_document :: "string \<Rightarrow> row list \<Rightarrow> pyerror + xml" where
  "aifm_document generated_on df =
     then_do (aifm_root_attrib generated_on (tag_input (str_range 1 4) df)) (\<lambda>attrs.
     then_do (AIFMRecordInfo df) (\<lambda>info.
     Inr (Element ''AIFMReportingInfo'' attrs None [info])))"

text \<open>
  \<open>convert_to_xml\<close>: one \<open>try\<close> around the whole loop, the tree written inside the
  loop. The clock gives the reading of \<open>datetime.today()\<close> for the file at each position.
\<close>

fun convert_loop :: "(nat \<Rightarrow> pydatetime) \<Rightarrow> nat \<Rightarrow> (string \<times> row list) list \<Rightarrow> (string \<times> xml) list \<Rightarrow> outcome" where
  "convert_loop clock i [] w = \<lparr>written = w, logged = [], printed = [], raised = None\<rparr>"
| "convert_loop clock i (file # files) w =
     (case aifm_document (strftime_aifm (clock i)) (snd file) of
        Inl e \<Rightarrow> \<lparr>written = w, logged = [Exc e], printed = [], raised = None\<rparr>
      | Inr root \<Rightarrow>
          convert_loop clock (Suc i) files (w @ [(splitext_root (fst file) @ ''.xml'', root)]))"

definition convert_to_xml :: "(nat \<Rightarrow> pydatetime) \<Rightarrow> (string \<times> row list) list \<Rightarrow> outcome" where
  "convert_to_xml clock files =
     (if length files = 0
      then \<lparr>written = [],
            logged = [Exc (NoFilesFoundError
              msg_no_files)],
            printed = [], raised = None\<rparr>
      else convert_loop clock 0 files [])"

section \<open>AIF.py\<close>

definition strftime_aif :: "pydatetime \<Rightarrow> string" where
  "strftime_aif d = date_iso d @ ''T'' @ time_iso d @ ''.0Z''"

text \<open>Lines 124 to 138: the check on the first two header rows and the root's attributes.\<close>

definition aif_root_attrib :: "string \<Rightarrow> (string \<times> pyval) list \<Rightarrow> pyerror + (string \<times> string) list" where
  "aif_root_attrib generated_on headerFileKeys =
     (case headerFileKeys of
        (k0, v0) # (k1, v1) # rest \<Rightarrow>
          if truthy v0 \<and> v1 = PStr ''''
          then Inl (EmptyValueError (k0 @ '' and '' @ k1 @ '' fields cannot be empty!''))
          else Inr (AList.update ''xmlns:xsi'' xsi_namespace
                   (AList.update k1 (strip (py_str v1))
                   (AList.update k0 (strip (py_str v0))
                   (AList.update ''CreationDateAndTime'' generated_on
                   (AList.update ''xsi:noNamespaceSchemaLocation'' ''AIFMD_DATAIF_V1.2.xsd'' [])))))
      | _ \<Rightarrow> Inl IndexError)"

text \<open>
  Four names of \<open>aif_xml\<close> are read on some paths before the current file has assigned
  them: \<open>AIFIdentification\<close>, \<open>PrimeBrokerIdentification\<close>, \<open>CounterpartyIdentification\<close>
  and \<open>MarketIdentification\<close>. The function's variables outlive one turn of the loop
  over the files, so such a read raises \<open>UnboundLocalError\<close> only while no earlier file
  has assigned the name; afterwards it yields an element of an earlier file's tree, and
  what is appended to it is never written. The record says which names are assigned when
  a file begins.
\<close>

record locals =
  AIFIdentification :: bool
  PrimeBrokerIdentification :: bool
  CounterpartyIdentification :: bool
  MarketIdentification :: bool

datatype 'a var = Unbound | Stale | Bound 'a

definition py_upper :: "pyval \<Rightarrow> pyerror + string" where
  "py_upper v = (case v of PStr s \<Rightarrow> Inr (upper s) | _ \<Rightarrow> Inl AttributeError)"

definition text_leaf :: "string \<times> pyval \<Rightarrow> xml" where
  "text_leaf kv = leaf (fst kv) (strip (py_str (snd kv)))"

text \<open>Line 222: \<open>{i[0]: i[1].strip() for i in AIFIdentifiers}\<close>, rows 24 to 32.\<close>

definition strip_value :: "string \<times> pyval \<Rightarrow> pyerror + string \<times> string" where
  "strip_value kv = (case snd kv of PStr s \<Rightarrow> Inr (fst kv, strip s) | _ \<Rightarrow> Inl AttributeError)"

definition AIFIdentifiers :: "row list \<Rightarrow> pyerror + (string \<times> string) list" where
  "AIFIdentifiers df =
     then_do (for_each strip_value (tag_input (str_range 24 33) df)) (\<lambda>rows. Inr (dict_of rows))"

text \<open>
  Lines 234 to 244, and again 317 to 329: the loop with a counter over the identifiers.
  The first item, when not empty, creates the element; every later item that is not empty
  goes into whatever the name holds. The result is the children of the element created,
  none when it was not.
\<close>

definition identification :: "string \<Rightarrow> bool \<Rightarrow> (string \<times> string) list \<Rightarrow> pyerror + xml list" where
  "identification name bound items =
     (case items of
        [] \<Rightarrow> Inr []
      | first # rest \<Rightarrow>
          if snd first \<noteq> []
          then Inr (map (\<lambda>kv. leaf (fst kv) (strip (snd kv)))
                 (first # filter (\<lambda>kv. snd kv \<noteq> []) rest))
          else if filter (\<lambda>kv. snd kv \<noteq> []) rest \<noteq> [] \<and> \<not> bound
          then Inl (UnboundLocalError name)
          else Inr [])"

definition msg_conditional :: string where
  "msg_conditional = '' Value required for ReportingMemberState if AIFNationalCode is filled and vice versa''"

definition aif_identification :: "bool \<Rightarrow> (string \<times> string) list \<Rightarrow> pyerror + xml list" where
  "aif_identification bound d =
     (if d \<noteq> [] then
        then_do (getitem d ''ReportingMemberState'') (\<lambda>rms.
        then_do (getitem d ''AIFNationalCode'') (\<lambda>nc.
        if (rms \<noteq> [] \<and> nc = []) \<or> (nc \<noteq> [] \<and> rms = [])
        then Inl (ConditionalError msg_conditional)
        else then_do (identification ''AIFIdentification'' bound d) (\<lambda>cs.
               Inr (if cs = [] then [] else [node ''AIFIdentification'' cs]))))
      else Inr [])"

text \<open>Lines 246 to 266: rows 33 to 40, the share classes.\<close>

definition aif_share_class :: "(string \<times> pyval) list \<Rightarrow> pyerror + xml list" where
  "aif_share_class shareClass =
     then_do (getitem shareClass ''ShareClassFlag'') (\<lambda>flag.
     if strip (lower (py_str flag)) = ''false''
     then Inr [leaf ''ShareClassFlag'' (strip (py_str flag))]
     else then_do (getitem shareClass ''ShareClassName'') (\<lambda>name.
            if name = PStr '''' \<and> strip (lower (py_str flag)) = ''true''
            then Inl (EmptyValueError ''Share class name field is required'')
            else Inr [node ''ShareClassFlag'' [],
                      node ''ShareClassIdentification''
                        (map (\<lambda>kv. node ''ShareClassIdentifier''
                                (if snd kv \<noteq> PStr '''' then [text_leaf kv] else []))
                           shareClass)]))"

text \<open>Lines 268 to 307: rows 41 to 44, master and feeder.\<close>

definition aif_master_feeder :: "(string \<times> pyval) list \<Rightarrow> pyerror + xml list" where
  "aif_master_feeder masterFeeder =
     then_do (getitem masterFeeder ''AIFMasterFeederStatus'') (\<lambda>status.
     then_do (py_upper status) (\<lambda>up.
     if strip up = ''FEEDER'' then
       then_do (getitem masterFeeder ''AIFName'') (\<lambda>name.
       if name = PStr '''' then Inl (EmptyValueError ''Value required for AIFName field'')
       else
         then_do (getitem masterFeeder ''ReportingMemberState'') (\<lambda>rms.
         then_do (getitem masterFeeder ''AIFNationalCode'') (\<lambda>nc.
         if rms \<noteq> PStr '''' \<and> nc = PStr ''''
         then Inl (EmptyValueError ''Value is required for AIFNationalCode field'')
         else Inr [leaf ''AIFMasterFeederStatus'' (strip (upper (py_str status))),
                   node ''MasterAIFsIdentification''
                     [node ''MasterAIFIdentification''
                        [leaf ''AIFName'' (strip (py_str name)),
                         node ''AIFIdentifierNCA''
                           ((if rms \<noteq> PStr ''''
                             then [leaf ''ReportingMemberState'' (strip (py_str rms))] else [])
                            @ (if nc \<noteq> PStr ''''
                               then [leaf ''AIFNationalCode'' (strip (py_str nc))] else []))]]])))
     else Inr [leaf ''AIFMasterFeederStatus'' (strip (upper (py_str status)))]))"

text \<open>
  Lines 309 to 329: rows 45 to 47, the prime brokers. The loop runs over the identifiers
  of the fund, not over the rows it has just selected.
\<close>

definition aif_prime_brokers :: "bool \<Rightarrow> (string \<times> pyval) list \<Rightarrow> (string \<times> string) list \<Rightarrow> pyerror + xml list" where
  "aif_prime_brokers bound primeBrokers identifiers =
     (if primeBrokers \<noteq> [] then
        then_do (identification ''PrimeBrokerIdentification'' bound identifiers) (\<lambda>cs.
        Inr (if cs = [] then []
             else [node ''PrimeBrokers'' [node ''PrimeBrokerIdentification'' cs]]))
      else Inr [])"

text \<open>Lines 331 to 379: rows 48 to 53, base currency, exchange rate and net asset value.\<close>

definition msg_aif_values_empty :: string where
  "msg_aif_values_empty = '' AUMAmountInBaseCurrency, BaseCurrency & AIFNetAssetValue cannot be empty''"

definition msg_aif_fx_empty :: string where
  "msg_aif_fx_empty = '' FXEURRate & FXEURReferenceRateType cannot be empty''"

definition msg_aif_other_rate_empty :: string where
  "msg_aif_other_rate_empty = ''FXEUROthReferenceRateDescription cannot be empty''"

definition aif_base_currency :: "(string \<times> pyval) list \<Rightarrow> pyerror + xml list" where
  "aif_base_currency principalValues =
     then_do (getitem principalValues ''BaseCurrency'') (\<lambda>bc.
     then_do (if truthy bc
              then then_do (getitem principalValues ''AIFNetAssetValue'') (\<lambda>nav.
                   if truthy nav
                   then then_do (getitem principalValues ''AUMAmountInBaseCurrency'') (\<lambda>aum.
                          if aum = PStr '''' then Inl (EmptyValueError msg_aif_values_empty)
                          else Inr ())
                   else Inr ())
              else Inr ()) (\<lambda>u.
     then_do (getitem principalValues ''AUMAmountInBaseCurrency'') (\<lambda>aum.
     then_do (py_upper bc) (\<lambda>up.
     then_do (if strip up \<noteq> ''EUR''
              then then_do (getitem principalValues ''FXEURRate'') (\<lambda>rate.
                   if truthy rate
                   then then_do (getitem principalValues ''FXEURReferenceRateType'') (\<lambda>rt.
                          if rt \<noteq> PStr ''''
                          then Inr [leaf ''FXEURReferenceRateType'' (strip (upper (py_str rt))),
                                    leaf ''FXEURRate'' (strip (py_str rate))]
                          else Inl (EmptyValueError msg_aif_fx_empty))
                   else Inl (EmptyValueError msg_aif_fx_empty))
              else Inr []) (\<lambda>fx.
     then_do (getitem principalValues ''FXEURReferenceRateType'') (\<lambda>rt.
     then_do (py_upper rt) (\<lambda>rtu.
     then_do (if strip rtu = ''OTH''
              then then_do (getitem principalValues ''FXEUROtherReferenceRateDescription'') (\<lambda>od.
                     if od \<noteq> PStr ''''
                     then Inr [leaf ''FXEUROtherReferenceRateDescription'' (strip (py_str od))]
                     else Inl (EmptyValueError msg_aif_other_rate_empty))
              else Inr []) (\<lambda>other.
     then_do (getitem principalValues ''AIFNetAssetValue'') (\<lambda>nav.
     Inr [node ''AIFBaseCurrencyDescription''
            ([leaf ''BaseCurrency'' (strip (upper (py_str bc))),
              leaf ''AUMAmountInBaseCurrency'' (strip (py_str aum))] @ fx @ other),
          leaf ''AIFNetAssetValue'' (strip (py_str nav))])))))))))"

text \<open>Lines 381 to 394: rows 54 to 57.\<close>

definition aif_jurisdiction :: "(string \<times> pyval) list \<Rightarrow> pyerror + xml list" where
  "aif_jurisdiction jurisdictionValues =
     then_do (getitem jurisdictionValues ''PredominantAIFType'') (\<lambda>t.
     if t = PStr '''' then Inl (EmptyValueError ''PredominantAIFType field cannot be empty'')
     else Inr (map text_leaf (filter (\<lambda>kv. snd kv \<noteq> PStr '''') jurisdictionValues)))"

text \<open>Lines 396 to 425: rows 58 to 60, the investment strategies of the two fund types.\<close>

definition aif_strategies :: "pyval \<Rightarrow> (string \<times> pyval) list \<Rightarrow> pyerror + xml list" where
  "aif_strategies aiftype investmentValues =
     (if aiftype = PStr ''HFND''
      then Inr [node ''HedgeFundInvestmentStrategies''
                  [node ''HedgeFundInvestmentStrategy'' (map text_leaf investmentValues)]]
      else if aiftype = PStr ''PEQF''
      then then_do (for_each (required_field '' field cannot be empty'') investmentValues) (\<lambda>cs.
             Inr [node ''PrivateEquityFundInvestmentStrategies''
                    [node ''PrivateEquityFundInvestmentStrategy'' cs]])
      else then_do (getitem investmentValues ''PrivateEquityFundStrategyType'') (\<lambda>v.
             Inl (NotImplementedError
                   (''Script has not been implemented for this '' @ py_str v @ '' yet''))))"

text \<open>
  Lines 438 to 534: the main instruments traded, the rows tagged \<open>m1\<close> to \<open>m5\<close>. Of the
  fourteen values of a row, index 0 is the identifier, 1 the description, 2 to 13 the
  inputs 1 to 12, so that \<open>[-3]\<close>, \<open>[-2]\<close>, \<open>[-1]\<close> are the inputs 10, 11, 12. The test for
  an empty sub-asset type reads \<open>principalExValues[1]\<close>, the second row of the list,
  which never equals the empty string and is missing when the list has one row. The
  \<open>print\<close> of line 483 is left out.
\<close>

definition tagged :: "string list \<Rightarrow> row list \<Rightarrow> row list" where
  "tagged tags df = filter (\<lambda>r. xmlTags r \<in> set tags) df"

definition MainInstrumentTraded :: "nat \<Rightarrow> row \<Rightarrow> pyerror + xml" where
  "MainInstrumentTraded n principalExValue =
     (if n < 2 then Inl IndexError else
      then_do (if XMLDescription principalExValue \<noteq> PStr ''NTA_NTA_NOTA''
               then for_each (required_field '' field cannot empty'')
                      [(''InstrumentCodeType'', Input_1 principalExValue),
                       (''InstrumentName'', Input_2 principalExValue)]
               else Inr []) (\<lambda>instrument.
      then_do (if Input_1 principalExValue = PStr ''ISIN''
               then for_each (required_field '' field cannot empty'')
                      [(''ISINInstrumentIdentification'', Input_3 principalExValue)]
               else Inr []) (\<lambda>isin.
      then_do (if Input_1 principalExValue = PStr ''AII''
               then then_do (for_each (required_field '' field cannot empty'')
                      [(''AIIExchangeCode'', Input_4 principalExValue),
                       (''AIIDerivativeType'', Input_5 principalExValue),
                       (''AIIPutCallIdentifier'', Input_6 principalExValue),
                       (''AIIExpiryDate'', Input_7 principalExValue),
                       (''AIIStrikePrice'', Input_8 principalExValue)]) (\<lambda>cs.
                    Inr [node ''AIIInstrumentIdentification'' cs])
               else Inr []) (\<lambda>aii.
      Inr (node ''MainInstrumentTraded''
             ([leaf ''Ranking'' (strip (str_id (Id principalExValue))),
               leaf ''SubAssetType'' (strip (py_str (XMLDescription principalExValue)))]
              @ instrument @ isin @ aii
              @ (if XMLDescription principalExValue \<noteq> PStr ''NTA_NTA_NOTA''
                 then [leaf ''PositionValue'' (strip (py_str (Input_11 principalExValue))),
                       leaf ''PositionType'' (strip (upper (py_str (Input_10 principalExValue))))]
                 else [])
              @ (if strip (upper (py_str (Input_10 principalExValue))) = ''S''
                 then [leaf ''ShortPositionHedgingRate'' (strip (py_str (Input_12 principalExValue)))]
                 else [])))))))"

text \<open>
  Lines 561 to 666: the principal exposures (rows \<open>p1\<close> to \<open>p10\<close>) and the portfolio
  concentrations (rows \<open>q1\<close> to \<open>q5\<close>). Both loops append into the element that the name
  \<open>CounterpartyIdentification\<close> holds, the second also into \<open>MarketIdentification\<close>, and
  either may have been assigned by an earlier row. The two lists of elements are therefore
  kept as state, with the place each name points to: a counterparty identification is the
  last child of its exposure or concentration, a market identification the fourth child
  of its concentration.
\<close>

datatype place = Exposure nat | Concentration nat

record portfolio =
  exposures :: "xml list"
  concentrations :: "xml list"
  counterparty :: "place var"
  market :: "nat var"

definition append_child :: "xml \<Rightarrow> xml \<Rightarrow> xml" where
  "append_child c e = Element (tag e) (attrib e) (content e) (children e @ [c])"

definition in_child :: "nat \<Rightarrow> (xml \<Rightarrow> xml) \<Rightarrow> xml \<Rightarrow> xml" where
  "in_child i f e = Element (tag e) (attrib e) (content e) ((children e)[i := f (children e ! i)])"

definition in_last_child :: "(xml \<Rightarrow> xml) \<Rightarrow> xml \<Rightarrow> xml" where
  "in_last_child f e = in_child (length (children e) - 1) f e"

definition into_counterparty :: "xml \<Rightarrow> portfolio \<Rightarrow> pyerror + portfolio" where
  "into_counterparty c p =
     (case counterparty p of
        Unbound \<Rightarrow> Inl (UnboundLocalError ''CounterpartyIdentification'')
      | Stale \<Rightarrow> Inr p
      | Bound (Exposure i) \<Rightarrow>
          Inr (p\<lparr>exposures := (exposures p)[i := in_last_child (append_child c) (exposures p ! i)]\<rparr>)
      | Bound (Concentration j) \<Rightarrow>
          Inr (p\<lparr>concentrations :=
                 (concentrations p)[j := in_last_child (append_child c) (concentrations p ! j)]\<rparr>))"

definition into_market :: "xml \<Rightarrow> portfolio \<Rightarrow> pyerror + portfolio" where
  "into_market c p =
     (case market p of
        Unbound \<Rightarrow> Inl (UnboundLocalError ''MarketIdentification'')
      | Stale \<Rightarrow> Inr p
      | Bound j \<Rightarrow>
          Inr (p\<lparr>concentrations :=
                 (concentrations p)[j := in_child 3 (append_child c) (concentrations p ! j)]\<rparr>))"

definition into_current :: "xml list \<Rightarrow> portfolio \<Rightarrow> portfolio" where
  "into_current cs p =
     p\<lparr>concentrations :=
         (concentrations p)[length (concentrations p) - 1 :=
            Element (tag (last (concentrations p))) (attrib (last (concentrations p)))
              (content (last (concentrations p))) (children (last (concentrations p)) @ cs)]\<rparr>"

text \<open>Values 2 to 8 of an exposure row are the inputs 1 to 7.\<close>

definition PrincipalExposure :: "row \<Rightarrow> portfolio \<Rightarrow> pyerror + portfolio" where
  "PrincipalExposure principalEx2Value p =
     (if XMLDescription principalEx2Value \<noteq> PStr ''NTA'' then
        then_do (Inr (p\<lparr>exposures := exposures p @
                   [node ''PrincipalExposure''
                      ([leaf ''Ranking'' (strip (str_id (Id principalEx2Value))),
                        leaf ''AssetMacroType'' (strip (py_str (XMLDescription principalEx2Value))),
                        leaf ''SubAssetType'' (strip (py_str (Input_1 principalEx2Value))),
                        leaf ''PositionType'' (strip (py_str (Input_2 principalEx2Value))),
                        leaf ''AggregatedValueAmount'' (strip (py_str (Input_3 principalEx2Value))),
                        leaf ''AggregatedValueRate'' (strip (py_str (Input_4 principalEx2Value)))]
                       @ (if Input_5 principalEx2Value \<noteq> PStr ''''
                          then [node ''CounterpartyIdentification''
                                  [leaf ''EntityName'' (strip (py_str (Input_5 principalEx2Value)))]]
                          else []))],
                 counterparty := (if Input_5 principalEx2Value \<noteq> PStr ''''
                                  then Bound (Exposure (length (exposures p)))
                                  else counterparty p)\<rparr>)) (\<lambda>p1.
        then_do (if Input_7 principalEx2Value \<noteq> PStr ''''
                 then into_counterparty
                        (leaf ''EntityIdentificationBIC'' (strip (py_str (Input_7 principalEx2Value)))) p1
                 else Inr p1) (\<lambda>p2.
        if Input_6 principalEx2Value \<noteq> PStr ''''
        then into_counterparty
               (leaf ''EntityIdentificationLEI'' (strip (py_str (Input_6 principalEx2Value)))) p2
        else Inr p2))
      else Inr (p\<lparr>exposures := exposures p @
                  [node ''PrincipalExposure''
                     [leaf ''Ranking'' (strip (str_id (Id principalEx2Value))),
                      leaf ''AssetMacroType'' (strip (py_str (XMLDescription principalEx2Value)))]]\<rparr>))"

text \<open>Values 2 to 9 of a concentration row are the inputs 1 to 8.\<close>

definition PortfolioConcentration :: "row \<Rightarrow> portfolio \<Rightarrow> pyerror + portfolio" where
  "PortfolioConcentration v p =
     then_do (Inr (p\<lparr>concentrations := concentrations p @
                [node ''PortfolioConcentration''
                   ([leaf ''Ranking'' (strip (str_id (Id v))),
                     leaf ''AssetType'' (strip (py_str (XMLDescription v)))]
                    @ (if XMLDescription v \<noteq> PStr ''NTA_NTA''
                       then [leaf ''PositionType'' (strip (py_str (Input_1 v))),
                             node ''MarketIdentification''
                               [leaf ''MarketCodeType'' (strip (py_str (Input_2 v)))]]
                       else []))],
              market := (if XMLDescription v \<noteq> PStr ''NTA_NTA''
                         then Bound (length (concentrations p)) else market p)\<rparr>)) (\<lambda>p1.
     then_do (if Input_2 v = PStr ''MIC''
              then into_market (leaf ''MarketCode'' (strip (py_str (Input_3 v)))) p1
              else Inr p1) (\<lambda>p2.
     then_do (Inr (into_current
                ([leaf ''AggregatedValueAmount'' (strip (py_str (Input_4 v))),
                  leaf ''AggregatedValueRate'' (strip (py_str (Input_5 v)))]
                 @ (if Input_2 v = PStr ''OTC'' \<and> Input_6 v \<noteq> PStr ''''
                    then [node ''CounterpartyIdentification''
                            [leaf ''EntityName'' (strip (py_str (Input_6 v)))]]
                    else [])) p2
              \<lparr>counterparty := (if Input_2 v = PStr ''OTC'' \<and> Input_6 v \<noteq> PStr ''''
                                then Bound (Concentration (length (concentrations p2) - 1))
                                else counterparty p2)\<rparr>)) (\<lambda>p3.
     then_do (if Input_8 v \<noteq> PStr ''''
              then into_counterparty
                     (leaf ''EntityIdentificationBIC'' (strip (py_str (Input_8 v)))) p3
              else Inr p3) (\<lambda>p4.
     if Input_7 v \<noteq> PStr ''''
     then into_counterparty (leaf ''EntityIdentificationLEI'' (strip (py_str (Input_7 v)))) p4
     else Inr p4))))"

fun for_state :: "('a \<Rightarrow> 's \<Rightarrow> pyerror + 's) \<Rightarrow> 'a list \<Rightarrow> 's \<Rightarrow> pyerror + 's" where
  "for_state f [] s = Inr s"
| "for_state f (x # xs) s = then_do (f x s) (for_state f xs)"

text \<open>Lines 681 to 710: the principal markets of the fund, the rows \<open>r1\<close> to \<open>r3\<close>.\<close>

definition AIFPrincipalMarket :: "row \<Rightarrow> pyerror + xml" where
  "AIFPrincipalMarket m =
     (if XMLDescription m = PStr ''''
      then Inl (EmptyValueError ''MarketIdentification cannot be empty'')
      else if strip (upper (py_str (XMLDescription m))) = ''MIC'' \<and> Input_1 m = PStr ''''
      then Inl (EmptyValueError ''MarketCode cannot be empty'')
      else if strip (upper (py_str (XMLDescription m))) \<noteq> ''NOT'' \<and> Input_2 m = PStr ''''
      then Inl (EmptyValueError ''MarketCode cannot be empty'')
      else Inr (node ''AIFPrincipalMarket''
             ([leaf ''Ranking'' (strip (str_id (Id m))),
               node ''MarketIdentification''
                 (leaf ''MarketCodeType'' (strip (upper (py_str (XMLDescription m))))
                  # (if strip (upper (py_str (XMLDescription m))) = ''MIC''
                     then [leaf ''MarketCode'' (strip (py_str (Input_1 m)))] else []))]
              @ (if strip (upper (py_str (XMLDescription m))) \<noteq> ''NOT''
                 then [leaf ''AggregatedValueAmount'' (strip (py_str (Input_2 m)))] else []))))"

text \<open>
  Lines 140 to 725: the record info of one file, section after section in the order of
  the source, the first error ending it; with it the names assigned when the file ends.
\<close>

definition aif_description :: "locals \<Rightarrow> row list \<Rightarrow> (string \<times> string) list \<Rightarrow> pyerror + xml list \<times> pyval" where
  "aif_description l df ids =
     then_do (aif_master_feeder (dict_of (tag_input (str_range 41 45) df))) (\<lambda>feeder.
     then_do (aif_prime_brokers (PrimeBrokerIdentification l)
                (dict_of (tag_input (str_range 45 48) df)) ids) (\<lambda>brokers.
     then_do (aif_base_currency (dict_of (tag_input (str_range 48 54) df))) (\<lambda>currency.
     then_do (aif_jurisdiction (dict_of (tag_input (str_range 54 58) df))) (\<lambda>jurisdiction.
     then_do (getitem (dict_of (tag_input (str_range 54 58) df)) ''PredominantAIFType'') (\<lambda>aiftype.
     then_do (aif_strategies aiftype (dict_of (tag_input (str_range 58 61) df))) (\<lambda>strategies.
     Inr (feeder @ brokers @ currency @ jurisdiction @ strategies
          @ map text_leaf (filter (\<lambda>kv. snd kv \<noteq> PStr '''') (tag_input (str_range 62 64) df)),
          aiftype)))))))"

definition aif_concentration :: "locals \<Rightarrow> row list \<Rightarrow> pyval \<Rightarrow> pyerror + (xml list \<times> bool \<times> bool)" where
  "aif_concentration l df aiftype =
     then_do (for_state PrincipalExposure
                (tagged (map (\<lambda>i. ''p'' @ str_int i) (py_range 1 11)) df)
                \<lparr>exposures = [], concentrations = [],
                 counterparty = (if CounterpartyIdentification l then Stale else Unbound),
                 market = (if MarketIdentification l then Stale else Unbound)\<rparr>) (\<lambda>p1.
     then_do (for_state PortfolioConcentration
                (tagged (map (\<lambda>i. ''q'' @ str_int i) (py_range 1 6)) df) p1) (\<lambda>p2.
     then_do (case filter (\<lambda>r. Id r = IdStr ''113'') df of
                [] \<Rightarrow> Inl IndexError | r # rest \<Rightarrow> Inr (Input_1 r)) (\<lambda>typicalPositionSize.
     then_do (for_each AIFPrincipalMarket
                (tagged (map (\<lambda>i. ''r'' @ str_int i) (py_range 1 4)) df)) (\<lambda>markets.
     then_do (for_each (required_field '' cannot be empty'')
                (dict_of (tag_input (str_range 118 121) df))) (\<lambda>investors.
     Inr ([node ''PrincipalExposures'' (exposures p2),
           node ''MostImportantConcentration''
             ([node ''PortfolioConcentrations'' (concentrations p2)]
              @ (if aiftype = PStr ''PEQF''
                 then [leaf ''TypicalPositionSize'' (strip (py_str typicalPositionSize))] else [])
              @ [node ''AIFPrincipalMarkets'' markets,
                 node ''InvestorConcentration'' investors])],
          counterparty p2 \<noteq> Unbound,
          market p2 \<noteq> Unbound \<or> markets \<noteq> []))))))"

definition AIFRecordInfo :: "locals \<Rightarrow> row list \<Rightarrow> pyerror + xml \<times> locals" where
  "AIFRecordInfo l df =
     then_do (for_each record_field (dict_of (tag_input (str_range 4 10) df))) (\<lambda>info.
     then_do (obligation ''AIF'' (dict_of (tag_input (str_range 10 16) df))) (\<lambda>change.
     then_do (for_each (required_field '' field cannot be empty!'')
                (dict_of (tag_input (str_range 16 24) df))) (\<lambda>fund.
     then_do (AIFIdentifiers df) (\<lambda>ids.
     then_do (aif_identification (AIFIdentification l) ids) (\<lambda>identity.
     then_do (aif_share_class (dict_of (tag_input (str_range 33 41) df))) (\<lambda>share.
     then_do (aif_description l df ids) (\<lambda>description.
     then_do (for_each (MainInstrumentTraded (length (tagged (map (\<lambda>i. ''m'' @ str_int i) (py_range 1 6)) df)))
                (tagged (map (\<lambda>i. ''m'' @ str_int i) (py_range 1 6)) df)) (\<lambda>instruments.
     then_do (for_each (required_field '' cannot be empty'')
                (dict_of (tag_input (str_range 78 86) df))) (\<lambda>nav.
     then_do (aif_concentration l df (snd description)) (\<lambda>concentration.
     Inr (node ''AIFRecordInfo''
            (info @ change @ fund @
             [node ''AIFCompleteDescription''
                [node ''AIFPrincipalInfo''
                   (identity @ share
                    @ [node ''AIFDescription'' (fst description),
                       node ''MainInstrumentsTraded'' instruments,
                       node ''NAVGeographicalFocus'' nav]
                    @ (if dict_of (tag_input (str_range 86 94) df) \<noteq> []
                       then [node ''AUMGeographicalFocus''
                               (map text_leaf (dict_of (tag_input (str_range 86 94) df)))]
                       else [])
                    @ fst concentration)]]),
          \<lparr>AIFIdentification = (AIFIdentification l \<or> identity \<noteq> []),
           PrimeBrokerIdentification =
             (PrimeBrokerIdentification l \<or>
              (dict_of (tag_input (str_range 45 48) df) \<noteq> [] \<and> ids \<noteq> [] \<and> snd (hd ids) \<noteq> [])),
           CounterpartyIdentification = fst (snd concentration),
           MarketIdentification = snd (snd concentration)\<rparr>)))))))))))"

definition aif_document :: "string \<Rightarrow> locals \<Rightarrow> row list \<Rightarrow> pyerror + xml \<times> locals" where
  "aif_document generated_on l df =
     then_do (aif_root_attrib generated_on (tag_input (str_range 1 4) df)) (\<lambda>attrs.
     then_do (AIFRecordInfo l df) (\<lambda>info.
     Inr (Element ''AIFReportingInfo'' attrs None [fst info], snd info)))"

text \<open>
  \<open>aif_xml\<close>: one \<open>try\<close> around the whole loop, and the tree written after the loop
  has ended, so that only the tree of the last file is written, under its name. An
  exception is printed, not logged.
\<close>

fun aif_loop :: "(nat \<Rightarrow> pydatetime) \<Rightarrow> nat \<Rightarrow> (string \<times> row list) list \<Rightarrow> locals \<Rightarrow> (string \<times> xml) option \<Rightarrow> pyerror + (string \<times> xml) option" where
  "aif_loop clock i [] l latest = Inr latest"
| "aif_loop clock i (file # files) l latest =
     then_do (aif_document (strftime_aif (clock i)) l (snd file)) (\<lambda>built.
     aif_loop clock (Suc i) files (snd built) (Some (splitext_root (fst file), fst built)))"

definition aif_xml :: "(nat \<Rightarrow> pydatetime) \<Rightarrow> (string \<times> row list) list \<Rightarrow> outcome" where
  "aif_xml clock files =
     (if length files = 0
      then \<lparr>written = [], logged = [], printed = [NoFilesFoundError msg_no_files], raised = None\<rparr>
      else case aif_loop clock 0 files
                  \<lparr>AIFIdentification = False, PrimeBrokerIdentification = False,
                   CounterpartyIdentification = False, MarketIdentification = False\<rparr> None of
             Inl e \<Rightarrow> \<lparr>written = [], logged = [], printed = [e], raised = None\<rparr>
           | Inr None \<Rightarrow>
               \<lparr>written = [], logged = [], printed = [UnboundLocalError ''root''], raised = None\<rparr>
           | Inr (Some latest) \<Rightarrow>
               \<lparr>written = [(fst latest @ ''.xml'', snd latest)], logged = [], printed = [],
                raised = None\<rparr>)"

section \<open>OFKReport.py\<close>

text \<open>
  A worksheet as \<open>generateXML\<close> holds it once it is parsed (lines 197 to 301): the form
  tag, the sheet's name, the column tags kept for the checks, and the transposed frame,
  a list of records, each a list of column tag and value. The sheet
  \<open>Formulierenoverzicht\<close> is passed over.
\<close>

record worksheet =
  formName :: string
  sheet_name :: string
  cols :: "string list"
  records :: "(string \<times> pyval) list list"

text \<open>Python's \<open>xs[a:b]\<close>, \<open>xs[a:]\<close> and \<open>xs[i]\<close>.\<close>

definition norm_index :: "int \<Rightarrow> nat \<Rightarrow> nat" where
  "norm_index i n = (if i < 0 then nat (max 0 (int n + i)) else min (nat i) n)"

definition slice :: "int \<Rightarrow> int \<Rightarrow> 'a list \<Rightarrow> 'a list" where
  "slice a b xs = take (norm_index b (length xs) - norm_index a (length xs))
                    (drop (norm_index a (length xs)) xs)"

definition slice_from :: "int \<Rightarrow> 'a list \<Rightarrow> 'a list" where
  "slice_from a xs = drop (norm_index a (length xs)) xs"

definition item :: "nat \<Rightarrow> 'a list \<Rightarrow> pyerror + 'a list" where
  "item i xs = (if i < length xs then Inr [xs ! i] else Inl IndexError)"

text \<open>
  The checks of one cell, lines 310 to 751. Every branch of the chain has the same shape:
  a column that must hold a whole number, for some of them not negative; otherwise a
  column that must hold text, for most branches of two letters when the column is
  \<open>Land\<close>. The user-defined exceptions are raised without a message.
\<close>

definition py_repr :: "string \<Rightarrow> string" where
  "py_repr s = [CHR 0x27] @ s @ [CHR 0x27]"

definition int_required :: "pyval \<Rightarrow> pyerror + unit" where
  "int_required v =
     (if v = PStr '''' then Inl (EmptyValueError '''')
      else case v of PInt i \<Rightarrow> Inr () | _ \<Rightarrow> Inl IntegerValueError)"

definition non_negative :: "string \<Rightarrow> string \<Rightarrow> pyval \<Rightarrow> pyerror + unit" where
  "non_negative k sheet v =
     (case v of
        PInt i \<Rightarrow>
          if i \<ge> 0 then Inr ()
          else Inl (AssertionError
                 (''Non-negative value required at ('' @ py_repr k @ '', '' @ py_repr sheet @ '')''))
      | _ \<Rightarrow> Inl TypeError)"

definition str_required :: "bool \<Rightarrow> string \<Rightarrow> pyval \<Rightarrow> pyerror + unit" where
  "str_required land k v =
     (if v = PStr '''' then Inl (EmptyValueError '''')
      else case v of
             PStr s \<Rightarrow>
               if land \<and> strip k = ''Land'' \<and> length s \<noteq> 2
               then Inl (LengthValueRequiredError '''') else Inr ()
           | _ \<Rightarrow> Inl StringValueError)"

definition check :: "(pyerror + string list) \<Rightarrow> (pyerror + string list) \<Rightarrow> (pyerror + string list) \<Rightarrow> bool \<Rightarrow> string \<Rightarrow> string \<Rightarrow> pyval \<Rightarrow> pyerror + unit" where
  "check ints nonneg strs land sheet k v =
     then_do ints (\<lambda>is.
     if strip k \<in> set is
     then then_do (int_required v) (\<lambda>u.
          then_do nonneg (\<lambda>ns. if k \<in> set ns then non_negative k sheet v else Inr ()))
     else then_do strs (\<lambda>ss. if strip k \<in> set ss then str_required land k v else Inr ()))"

definition validate_cell :: "string \<Rightarrow> string list \<Rightarrow> string \<Rightarrow> pyval \<Rightarrow> pyerror + unit" where
  "validate_cell sheet c k v =
    (
     if sheet \<in> set [''AD-C'', ''PD-C'']
      then check (Inr (slice 3 (-1) c)) (Inr (slice 4 6 c @ slice 7 8 c)) (Inr (slice 1 3 c)) True sheet k v
     else if sheet \<in> set [''AD-A'', ''PD-A'']
      then check (Inr (slice 3 4 c)) (Inr []) (Inr (slice 1 3 c @ slice_from (-1) c)) True sheet k v
     else if sheet = ''ADO-C''
      then check (Inr (slice_from 2 c)) (Inr (slice 2 5 c @ slice (-2) (-1) c)) (item 1 c) True sheet k v
     else if sheet \<in> set [''AEB-A'', ''AEN-A'']
      then check (Inr (slice 4 11 c @ slice_from (-1) c)) (Inr (slice 5 7 c)) (Inr (slice 2 4 c)) True sheet k v
     else if sheet = ''AEB-AI''
      then check (Inr (slice 4 7 c @ slice 9 11 c @ slice_from (-1) c)) (Inr (slice 5 7 c)) (item 1 c) False sheet k v
     else if sheet \<in> set [''AEB-G'', ''AEB-K'', ''AEN-G'', ''AEN-K'']
      then check (Inr (slice 4 (-1) c)) (Inr (slice 5 7 c @ slice 13 15 c)) (Inr (slice 2 4 c)) True sheet k v
     else if sheet = ''AEB-KGI''
      then check (Inr (slice 4 7 c @ slice 9 11 c @ slice 13 15 c)) (Inr (slice 5 7 c @ slice 13 15 c)) (item 1 c) False sheet k v
     else if sheet = ''AEN-AI''
      then check (Inr (slice 4 7 c @ slice 9 11 c @ slice_from (-1) c)) (Inr (slice 5 7 c)) (Inr (slice 1 3 c)) True sheet k v
     else if sheet = ''AEN-KGI''
      then check (Inr (slice 4 7 c @ slice 9 11 c @ slice 13 15 c)) (Inr (slice 5 7 c @ slice 13 15 c)) (Inr (slice 1 3 c)) True sheet k v
     else if sheet = ''ANF-C''
      then check (Inr (slice_from 1 c)) (Inr (slice 2 4 c)) (Inr []) True sheet k v
     else if sheet \<in> set [''AO-FL'', ''AO-HL'', ''AO-LK'', ''AO-LL'', ''AO-RP'']
      then check (Inr (slice 3 13 c @ slice_from (-2) c)) (Inr (slice 3 6 c @ slice 9 13 c @ slice_from (-1) c)) (Inr (slice 1 3 c)) True sheet k v
     else if sheet = ''AO-HY''
      then check (Inr (slice 3 13 c @ slice_from (-2) c)) (Inr (slice 3 6 c @ slice 9 13 c @ slice_from (-1) c)) (item 1 c) True sheet k v
     else if sheet \<in> set [''AO-OK'', ''AO-OL'']
      then check (Inr (slice 3 10 c @ slice 12 13 c)) (Inr (slice 3 6 c @ slice 9 10 c @ slice 12 13 c)) (Inr (slice 1 3 c)) True sheet k v
     else if sheet = ''AO-RC''
      then check (Inr (slice 3 10 c @ slice 12 14 c)) (Inr (slice 4 6 c @ slice 12 14 c)) (Inr (slice 1 3 c)) True sheet k v
     else if sheet = ''D-FB''
      then check (Inr (slice 5 7 c)) (Inr (slice 5 7 c)) (item 2 c) True sheet k v
     else if sheet \<in> set [''D-OK'', ''D-OS'']
      then check (Inr (slice 4 7 c @ slice_from (-2) c)) (Inr (slice 4 7 c @ slice_from (-2) c)) (Inr (slice 2 4 c)) True sheet k v
     else if sheet \<in> set [''D-OTR'', ''D-OTV'']
      then check (Inr (slice 4 8 c @ slice_from (-3) c)) (Inr (slice 4 8 c @ slice_from (-2) c)) (Inr (slice 2 4 c)) True sheet k v
     else if sheet \<in> set [''GD-ECM'', ''GD-ICM'']
      then check (Inr (slice 2 4 c)) (Inr (slice 2 4 c)) (Inr (slice 1 2 c @ slice_from (-1) c)) True sheet k v
     else if sheet = ''PEN-A''
      then check (Inr (slice 3 10 c @ slice_from (-1) c)) (Inr (slice 4 6 c @ slice 9 10 c @ slice_from (-1) c)) (item 2 c) True sheet k v
     else if sheet = ''PEN-AI''
      then check (Inr (slice 3 6 c @ slice 8 10 c @ slice_from (-1) c)) (Inr (slice 3 6 c @ slice 9 10 c @ slice_from (-1) c)) (Inr (slice 1 3 c)) True sheet k v
     else if sheet = ''PEN-KGI''
      then check (Inr (slice 3 6 c @ slice 8 10 c @ slice 13 15 c)) (Inr (slice 3 6 c @ slice 9 10 c @ slice 13 15 c)) (Inr (slice 1 3 c)) True sheet k v
     else if sheet \<in> set [''PEN-G'', ''PEN-K'']
      then check (Inr (slice 3 (-1) c)) (Inr (slice 3 6 c @ slice 9 14 c @ slice (-2) (-1) c)) (item 2 c) True sheet k v
     else if sheet \<in> set [''PO-OK'', ''PO-OL'']
      then check (Inr (slice 3 10 c @ slice (-3) (-2) c)) (Inr (slice 3 6 c @ slice 9 10 c @ slice (-3) (-2) c)) (Inr (slice 1 3 c)) True sheet k v
     else if sheet = ''PV-OV''
      then check (Inr (slice_from 3 c)) (Inr (slice 4 6 c)) (Inr []) True sheet k v
     else if sheet \<in> set [''PO-FL'', ''PO-HL'', ''PO-LK'', ''PO-LL'', ''PO-RP'']
      then check (Inr (slice 3 12 c @ slice_from (-3) c)) (Inr (slice 3 6 c @ slice 9 12 c @ slice (-3) (-2) c @ slice_from (-1) c)) (Inr (slice 1 3 c)) True sheet k v
     else if sheet = ''WVA-B''
      then check (item 2 c) (Inr []) (Inr []) True sheet k v
     else if sheet \<in> set [''WVB-B'', ''WVB-L'', ''WVB-S'']
      then check (item 2 c) (item 2 c) (Inr []) True sheet k v
     else if sheet \<in> set [''WVU-B'', ''WVU-L'']
      then check (item 2 c) (item 2 c) (item 1 c) False sheet k v
     else if sheet = ''WVA-R''
      then check (item 1 c) (Inr []) (Inr []) True sheet k v
     else Inr ())"

text \<open>
  The three loops of lines 305 to 308. An exception leaves them with the column and the
  sheet it arose at, which the handlers put into the log.
\<close>

fun validate_record :: "string \<Rightarrow> string list \<Rightarrow> (string \<times> pyval) list \<Rightarrow> (pyerror \<times> string \<times> string) + unit" where
  "validate_record sheet c [] = Inr ()"
| "validate_record sheet c (kv # kvs) =
     (case validate_cell sheet c (fst kv) (snd kv) of
        Inl e \<Rightarrow> Inl (e, fst kv, sheet)
      | Inr u \<Rightarrow> validate_record sheet c kvs)"

fun validate_records :: "string \<Rightarrow> string list \<Rightarrow> (string \<times> pyval) list list \<Rightarrow> (pyerror \<times> string \<times> string) + unit" where
  "validate_records sheet c [] = Inr ()"
| "validate_records sheet c (r # rs) =
     (case validate_record sheet c r of
        Inl e \<Rightarrow> Inl e
      | Inr u \<Rightarrow> validate_records sheet c rs)"

text \<open>
  \<open>columns_to_validate\<close> keeps, for a sheet name, the column tags of the first sheet of
  that name.
\<close>

definition columns_to_validate :: "worksheet list \<Rightarrow> string \<Rightarrow> pyerror + string list" where
  "columns_to_validate dataframes s = getitem (map (\<lambda>w. (sheet_name w, cols w)) dataframes) s"

fun validate_sheets :: "worksheet list \<Rightarrow> worksheet list \<Rightarrow> (pyerror \<times> string \<times> string) + unit" where
  "validate_sheets dataframes [] = Inr ()"
| "validate_sheets dataframes (w # ws) =
     (case columns_to_validate dataframes (sheet_name w) of
        Inl e \<Rightarrow> Inl (e, [], sheet_name w)
      | Inr c \<Rightarrow>
          (case validate_records (sheet_name w) c (records w) of
             Inl e \<Rightarrow> Inl e
           | Inr u \<Rightarrow> validate_sheets dataframes ws))"

text \<open>Lines 131 to 165: the control tag of every subform.\<close>

definition subformRegeltag :: "(string \<times> string) list" where
  "subformRegeltag =
    [(''AD-A'', ''AlgDeeln''), (''AD-C'', ''DeelnAct''), (''ADO-C'', ''OnrGoed''),
     (''AEB-A'', ''Aandelen''), (''AEB-AI'', ''Aandelen''), (''AEBB-A'', ''Aandelen''),
     (''AEBB-AI'', ''Aandelen''), (''AEBB-G'', ''GeldmarktPap''),
     (''AEBB-K'', ''KapitaalmarktPap''), (''AEBB-KGI'', ''Schuldpapier''),
     (''AEB-G'', ''GeldmarktPap''), (''AEB-K'', ''KapitaalmarktPap''),
     (''AEB-KGI'', ''Schuldpapier''), (''AEI-A'', ''Aandelen''), (''AEI-AI'', ''Aandelen''),
     (''AEI-G'', ''GeldmarktPap''), (''AEI-K'', ''KapitaalmarktPap''),
     (''AEI-KGI'', ''Schuldpapier''), (''AEL-A'', ''Aandelen''), (''AEL-AI'', ''Aandelen''),
     (''AEL-G'', ''GeldmarktPap''), (''AEL-K'', ''KapitaalmarktPap''),
     (''AEL-KGI'', ''Schuldpapier''), (''AEN-A'', ''Aandelen''), (''AEN-AI'', ''Aandelen''),
     (''AENB-A'', ''Aandelen''), (''AENB-AI'', ''Aandelen''), (''AENB-G'', ''GeldmarktPap''),
     (''AENB-K'', ''KapitaalmarktPap''), (''AENB-KGI'', ''Schuldpapier''),
     (''AENL-A'', ''Aandelen''), (''AENL-AI'', ''Aandelen''), (''AENL-G'', ''GeldmarktPap''),
     (''AENL-K'', ''KapitaalmarktPap''), (''AENL-KGI'', ''Schuldpapier''),
     (''AEN-G'', ''GeldmarktPap''), (''AEN-K'', ''KapitaalmarktPap''),
     (''AEN-KGI'', ''Schuldpapier''), (''AEU-A'', ''Aandelen''), (''AEU-AI'', ''Aandelen''),
     (''AEU-G'', ''GeldmarktPap''), (''AEU-K'', ''KapitaalmarktPap''),
     (''AEU-KGI'', ''Schuldpapier''), (''ANF-C'', ''ActivaNietFin''),
     (''ANF-CGM'', ''ActivaNietFin''), (''ANF-CGJ'', ''ActivaNietFin''),
     (''AO-DI'', ''DeelnIntInst''), (''AOE-A'', ''Aandelen''), (''AOE-AI'', ''Aandelen''),
     (''AOE-G'', ''GeldmarktPap''), (''AOE-K'', ''KapitaalmarktPap''),
     (''AOE-KGI'', ''Schuldpapier''), (''AO-FL'', ''LeasesUG''), (''AO-HK'', ''HandUGK''),
     (''AO-HL'', ''HandUGL''), (''AO-HY'', ''HypoUG''), (''AO-LK'', ''LeningUGK''),
     (''AO-LL'', ''LeningUGL''), (''AO-OK'', ''OverigeUGK''), (''AO-OL'', ''OverigeUGL''),
     (''AO-RC'', ''RecCourant''), (''AO-RP'', ''RepoUG''), (''AR'', ''StichKap''),
     (''AV-LP'', ''TechVoorz''), (''AV-VV'', ''LopenAanspr''), (''BENB-A'', ''Aandelen''),
     (''BENB-AI'', ''Aandelen''), (''BENB-G'', ''GeldmarktPap''),
     (''BENB-K'', ''KapitaalmarktPap''), (''BENB-KGI'', ''Schuldpapier''),
     (''BT'', ''BalansTotaal''), (''D-FB'', ''Futures''), (''D-FN'', ''Futures''),
     (''DO-FB'', ''Futures''), (''D-OK'', ''OptiesGekocht''), (''DO-OK'', ''OptiesGekocht''),
     (''DO-OS'', ''OptiesGeschr''), (''DO-OTR'', ''OTCDerivaten''),
     (''DO-OTV'', ''OTVDerivaten''), (''D-OS'', ''OptiesGeschr''),
     (''D-OTR'', ''OTCDerivaten''), (''D-OTV'', ''OTVDerivaten''),
     (''IO-GO'', ''OntwHulpGebond''), (''IO-OO'', ''OntwHulpSchenk''),
     (''IO-XH'', ''InkomOverdracht''), (''GD-ECM'', ''DienstExtraConcern''),
     (''GD-ICM'', ''DienstIntraConcern''), (''GD-GLM'', ''RandLGebruiksLicent''),
     (''GD-RLM'', ''RandLReprodLicent''), (''GD-ECJ'', ''DienstExtraConcern''),
     (''GD-ICJ'', ''DienstIntraConcern''), (''GD-GLJ'', ''RandLGebruiksLicent''),
     (''GD-RLJ'', ''RandLReprodLicent''), (''IWB'', ''IntrWaarde''),
     (''KO-KW'', ''SchuldKwijtSch''), (''KO-OG'', ''OnrGoedBtlOv''),
     (''KO-SR'', ''Stamrechten''), (''KO-VO'', ''OverKapitOverdr''), (''PD-A'', ''AlgDeeln''),
     (''PD-C'', ''DeelnPass''), (''PEN-A'', ''Aandelen''), (''PEN-AI'', ''Aandelen''),
     (''PENB-A'', ''Aandelen''), (''PENB-AI'', ''Aandelen''), (''PENB-G'', ''GeldmarktPap''),
     (''PENB-K'', ''KapitaalmarktPap''), (''PENB-KGI'', ''Schuldpapier''),
     (''PENL-A'', ''Aandelen''), (''PENL-AI'', ''Aandelen''), (''PENL-G'', ''GeldmarktPap''),
     (''PENL-K'', ''KapitaalmarktPap''), (''PENL-KGI'', ''Schuldpapier''),
     (''PEN-G'', ''GeldmarktPap''), (''PEN-K'', ''KapitaalmarktPap''),
     (''PEN-KGI'', ''Schuldpapier''), (''PN-OS'', ''NedTegenpartij''),
     (''PO-FL'', ''LeasesOG''), (''PO-HK'', ''HandOGK''), (''PO-HL'', ''HandOGL''),
     (''PO-LK'', ''LeningOGK''), (''PO-LL'', ''LeningOGL''), (''PO-OK'', ''OverigeOGK''),
     (''PO-OL'', ''OverigeOGL''), (''PO-RP'', ''RepoOG''), (''PV-LP'', ''TechVoorz''),
     (''PV-OV'', ''OverVoorz''), (''PV-VV'', ''LopenAanspr''), (''SB-K'', ''ParticipatieUGK''),
     (''SB-L'', ''ParticipatieUGL''), (''SN-K'', ''ParticipatieOGK''),
     (''SN-L'', ''ParticipatieOGL''), (''WE-A'', ''Aandelen''), (''WE-AI'', ''Aandelen''),
     (''WE-G'', ''GeldmarktPap''), (''WE-K'', ''KapitaalmarktPap''),
     (''WE-KGI'', ''Schuldpapier''), (''WI-A'', ''Aandelen''), (''WI-AI'', ''Aandelen''),
     (''WI-G'', ''GeldmarktPap''), (''WI-K'', ''KapitaalmarktPap''),
     (''WI-KGI'', ''Schuldpapier''), (''WVA-B'', ''Bestemming''), (''WVA-R'', ''Resulaten''),
     (''WVA-Z'', ''Resulaten''), (''WVB-B'', ''Baten''), (''WVB-L'', ''Bedrijfskosten''),
     (''WVB-O'', ''Bedrijfskosten''), (''WVB-S'', ''Loonkosten''),
     (''WVP'', ''WinstVerlPremUitk''), (''WVP-ZA'', ''AanvZorg''), (''WVP-ZZ'', ''ZorgZvw''),
     (''WVT-BL'', ''TotBatenLasten''), (''WVU-B'', ''WinstVerlBuiten''),
     (''WVU-L'', ''LatenUitz'')]"

text \<open>
  Lines 773 to 794: the tree. A sheet whose form tag has been seen goes under the form
  element created last, whichever form that was.
\<close>

definition subform :: "worksheet \<Rightarrow> pyerror + xml" where
  "subform w =
     then_do (for_each (\<lambda>r. then_do (getitem subformRegeltag (sheet_name w)) (\<lambda>control_tag.
                               Inr (node control_tag (map text_leaf r))))
                (records w)) (\<lambda>cs.
     Inr (node (sheet_name w) cs))"

fun forms :: "worksheet list \<Rightarrow> string list \<Rightarrow> xml list \<Rightarrow> pyerror + xml list" where
  "forms [] existing_subForms built = Inr built"
| "forms (w # ws) existing_subForms built =
     then_do (subform w) (\<lambda>s.
     if formName w \<in> set existing_subForms
     then forms ws existing_subForms (butlast built @ [append_child s (last built)])
     else forms ws (existing_subForms @ [formName w]) (built @ [node (formName w) [s]]))"

text \<open>Lines 173 to 187: the date of the form, the year and the month before this one.\<close>

definition generated_file_date :: "pydatetime \<Rightarrow> string" where
  "generated_file_date d = zero_pad 4 (year d) @ ''-'' @ ''0'' @ str_int (month d - 1)"

definition ofk_root :: "pydatetime \<Rightarrow> xml list \<Rightarrow> xml" where
  "ofk_root today fs =
     Element ''OFK-K''
       (AList.update ''xsi:schemaLocation'' (''bb.dnb.nl '' @ ''OFK-K.'' @ generated_file_date today @ ''.xsd'')
       (AList.update ''xmlns:xsi'' xsi_namespace
       (AList.update ''xmlns'' ''bb.dnb.nl'' [])))
       None
       (leaf ''rappOpmerkingen'' (''OFK '' @ generated_file_date today) # fs)"

text \<open>
  The handlers of lines 753 to 771. Two of them log the text \<open>{file}\<close> as it stands, the
  message not being an f-string.
\<close>

definition msg_land :: string where
  "msg_land = ''Example of accept values required column '' @ [CHR 0x22] @ ''Land'' @ [CHR 0x22]
     @ '' are '' @ [CHR 0x22] @ ''BE, NL, AZ'' @ [CHR 0x22] @ '' etc.''"

definition handled :: "string \<Rightarrow> pyerror \<times> string \<times> string \<Rightarrow> logentry list option" where
  "handled file raised_at = (case raised_at of (e, k, sheet) \<Rightarrow>
     (case e of
        IntegerValueError \<Rightarrow>
          Some [Msg (''Error Ocurred in '' @ file @ ''!!!''),
                Msg (''Integer value is required in Column '' @ [CHR 0x22] @ k @ [CHR 0x22]
                     @ '' of worksheet '' @ [CHR 0x22] @ sheet @ [CHR 0x22])]
      | AssertionError m \<Rightarrow>
          Some [Msg ''Error Ocurred in {file}!!!'', Msg m]
      | EmptyValueError m \<Rightarrow>
          Some [Msg (''Error Ocurred in '' @ file @ ''!!!''),
                Msg (''Column '' @ [CHR 0x22] @ k @ [CHR 0x22] @ '' value of worksheet ''
                     @ [CHR 0x22] @ sheet @ [CHR 0x22] @ '' cannot be empty'')]
      | StringValueError \<Rightarrow>
          Some [Msg (''Error Ocurred in '' @ file @ ''!!!''),
                Msg (''String value is required in Column '' @ [CHR 0x22] @ k @ [CHR 0x22]
                     @ '' of worksheet '' @ [CHR 0x22] @ sheet @ [CHR 0x22])]
      | LengthValueRequiredError m \<Rightarrow>
          Some [Msg ''Error Ocurred in {file}!!!'', Msg msg_land]
      | _ \<Rightarrow> None))"

text \<open>
  \<open>generateXML\<close>: the \<open>try\<close> is inside the loop over the files. A handled exception is
  logged and the next file is taken; any other exception leaves the function.
\<close>

fun generate_loop :: "(nat \<Rightarrow> pydatetime) \<Rightarrow> nat \<Rightarrow> (string \<times> worksheet list) list \<Rightarrow> outcome \<Rightarrow> outcome" where
  "generate_loop clock i [] out = out"
| "generate_loop clock i (file # files) out =
     (let dataframes = filter (\<lambda>w. sheet_name w \<noteq> ''Formulierenoverzicht'') (snd file) in
      case validate_sheets dataframes dataframes of
        Inl raised_at \<Rightarrow>
          (case handled (fst file) raised_at of
             Some entries \<Rightarrow> generate_loop clock (Suc i) files (out\<lparr>logged := logged out @ entries\<rparr>)
           | None \<Rightarrow> out\<lparr>raised := Some (fst raised_at)\<rparr>)
      | Inr u \<Rightarrow>
          (case forms dataframes [] [] of
             Inl e \<Rightarrow> out\<lparr>raised := Some e\<rparr>
           | Inr fs \<Rightarrow>
               generate_loop clock (Suc i) files
                 (out\<lparr>written := written out @
                    [(splitext_root (fst file) @ ''.xml'', ofk_root (clock i) fs)]\<rparr>)))"

definition generateXML :: "(nat \<Rightarrow> pydatetime) \<Rightarrow> (string \<times> worksheet list) list \<Rightarrow> outcome" where
  "generateXML clock files =
     generate_loop clock 0 files \<lparr>written = [], logged = [], printed = [], raised = None\<rparr>"

section \<open>Sample sheets\<close>

text \<open>Rows and sheets on which the theorems below are tried.\<close>

definition blank :: pyval where
  "blank = PStr ''''"

definition narrow :: "string \<Rightarrow> rowid \<Rightarrow> pyval \<Rightarrow> pyval \<Rightarrow> pyval \<Rightarrow> row" where
  "narrow t i d a b =
     \<lparr>xmlTags = t, Id = i, XMLDescription = d, Input_1 = a, Input_2 = b, Input_3 = blank,
      Input_4 = blank, Input_5 = blank, Input_6 = blank, Input_7 = blank, Input_8 = blank,
      Input_9 = blank, Input_10 = blank, Input_11 = blank, Input_12 = blank\<rparr>"

definition field :: "string \<Rightarrow> string \<Rightarrow> pyval \<Rightarrow> row" where
  "field i t a = narrow t (IdStr i) blank a blank"

definition noon :: pydatetime where
  "noon = \<lparr>year = 2020, month = 4, day = 30, hour = 12, minute = 0, second = 0\<rparr>"

definition later :: pydatetime where
  "later = \<lparr>year = 2020, month = 5, day = 1, hour = 9, minute = 30, second = 5\<rparr>"

text \<open>A sheet of the manager's report that builds: no markets, no instruments, no base currency.\<close>

definition aifm_header :: "row list" where
  "aifm_header =
     [field ''1'' ''ReportingMemberState'' (PStr ''NL''),
      field ''2'' ''Version'' (PStr ''1.2''),
      field ''10'' ''AIFMReportingObligationChangeFrequencyCode'' blank,
      field ''11'' ''AIFMReportingObligationChangeContentsCode'' blank,
      field ''13'' ''LastReportingFlag'' (PBool False)]"

definition aifm_sheet :: "row list" where
  "aifm_sheet = aifm_header @
     [field ''14'' ''QuestionNumber'' blank,
      field ''33'' ''AUMAmountInEuro'' (PInt 1000),
      field ''35'' ''AUMAmountInBaseCurrency'' blank]"

text \<open>The same sheet with two principal markets, the row \<open>2nd\<close> above the row \<open>1st\<close>.\<close>

definition market_first :: row where
  "market_first = narrow ''AIFMFivePrincipalMarket'' (IdStr ''1st'') (PStr ''MIC'') (PStr ''XAMS'') (PInt 10)"

definition market_second :: row where
  "market_second = narrow ''AIFMFivePrincipalMarket'' (IdStr ''2nd'') (PStr ''XXX'') blank (PInt 20)"

definition aifm_sheet_markets :: "row list" where
  "aifm_sheet_markets = aifm_sheet @ [market_second, market_first]"

text \<open>And with a market of a code type outside the four.\<close>

definition aifm_sheet_bad_market :: "row list" where
  "aifm_sheet_bad_market = aifm_sheet @
     [market_first,
      narrow ''AIFMFivePrincipalMarket'' (IdStr ''2nd'') (PStr ''REG'') blank (PInt 20)]"

text \<open>
  The sheet with a question number and an assumption description of \<open>n\<close> letters, and
  the sheet of a fund in dollars whose reference rate is of type OTH and has no description.
\<close>

definition aifm_sheet_assumption :: "nat \<Rightarrow> row list" where
  "aifm_sheet_assumption n = aifm_header @
     [field ''14'' ''QuestionNumber'' (PInt 1),
      field ''15'' ''AssumptionDescription'' (PStr (replicate n CHR ''a'')),
      field ''33'' ''AUMAmountInEuro'' (PInt 1000),
      field ''35'' ''AUMAmountInBaseCurrency'' blank]"

definition aifm_sheet_usd_oth :: "row list" where
  "aifm_sheet_usd_oth = aifm_header @
     [field ''14'' ''QuestionNumber'' blank,
      field ''33'' ''AUMAmountInEuro'' (PInt 1000),
      field ''34'' ''BaseCurrency'' (PStr ''USD''),
      field ''35'' ''AUMAmountInBaseCurrency'' (PInt 1200),
      field ''36'' ''FXEURReferenceRateType'' (PStr ''OTH''),
      field ''37'' ''FXEURRate'' (PFloat FPos ''1.2''),
      field ''38'' ''FXEUROtherReferenceRateDescription'' blank]"

definition aif_values_usd_oth :: "(string \<times> pyval) list" where
  "aif_values_usd_oth =
     [(''BaseCurrency'', PStr ''USD''), (''AUMAmountInBaseCurrency'', PInt 1200),
      (''FXEURReferenceRateType'', PStr ''OTH''), (''FXEURRate'', PFloat FPos ''1.2''),
      (''FXEUROtherReferenceRateDescription'', blank), (''AIFNetAssetValue'', PInt 1100)]"

section \<open>Auxiliary facts\<close>

lemma then_do_Inl [simp]: "then_do (Inl e) f = Inl e"
  by (simp add: then_do_def)

lemma then_do_Inr [simp]: "then_do (Inr x) f = f x"
  by (simp add: then_do_def)

lemma then_do_eq_Inr: "then_do m f = Inr y \<longleftrightarrow> (\<exists>x. m = Inr x \<and> f x = Inr y)"
  by (cases m) simp_all

lemma then_do_eq_Inl: "then_do m f = Inl e \<longleftrightarrow> m = Inl e \<or> (\<exists>x. m = Inr x \<and> f x = Inl e)"
  by (cases m) simp_all

lemma not_Inr_is_Inl: "(\<And>r. x \<noteq> Inr r) \<Longrightarrow> \<exists>e. x = Inl e"
  by (cases x) auto

lemma digit_char_digit: "0 \<le> d \<Longrightarrow> d < 10 \<Longrightarrow> digit_char d \<in> set ''0123456789''"
  unfolding digit_char_def by (rule nth_mem) simp

lemma digits_are_digits: "0 \<le> n \<Longrightarrow> c \<in> set (digits n) \<Longrightarrow> c \<in> set ''0123456789''"
proof (induction n arbitrary: c rule: digits.induct)
  case (1 n)
  show ?case
  proof (cases "n < 10")
    case True
    with "1.prems" have "c = digit_char n" by (simp add: digits.simps [of n])
    with True "1.prems" show ?thesis using digit_char_digit by blast
  next
    case False
    with "1.prems" have "c \<in> set (digits (n div 10)) \<or> c = digit_char (n mod 10)"
      by (auto simp: digits.simps [of n])
    then show ?thesis
    proof
      assume "c \<in> set (digits (n div 10))"
      moreover have "0 \<le> n div 10" using "1.prems" by simp
      ultimately show ?thesis using False "1.IH" by simp
    next
      assume "c = digit_char (n mod 10)"
      moreover have "0 \<le> n mod 10" "n mod 10 < 10" by simp_all
      ultimately show ?thesis using digit_char_digit by blast
    qed
  qed
qed

lemma digit_not_space: "c \<in> set ''0123456789'' \<Longrightarrow> \<not> is_space c"
  by (auto simp: is_space_def whitespace_def)

lemma strip_no_space: "(\<And>c. c \<in> set s \<Longrightarrow> \<not> is_space c) \<Longrightarrow> strip s = s"
proof -
  assume a: "\<And>c. c \<in> set s \<Longrightarrow> \<not> is_space c"
  have 1: "dropWhile is_space s = s"
    using a by (cases s) simp_all
  have "\<forall>c \<in> set (rev s). \<not> is_space c"
    using a by simp
  then have 2: "dropWhile is_space (rev s) = rev s"
    by (cases "rev s") auto
  show ?thesis by (simp add: strip_def 1 2)
qed

lemma strip_str_int [simp]: "strip (str_int i) = str_int i"
proof (rule strip_no_space)
  fix c assume "c \<in> set (str_int i)"
  then have "c = CHR ''-'' \<or> (i < 0 \<and> c \<in> set (digits (- i))) \<or> (0 \<le> i \<and> c \<in> set (digits i))"
    by (auto simp: str_int_def split: if_splits)
  moreover have "\<not> is_space CHR ''-''"
    by (simp add: is_space_def whitespace_def)
  ultimately show "\<not> is_space c"
    using digits_are_digits [of i c] digits_are_digits [of "- i" c] digit_not_space by fastforce
qed

lemma findtext_Cons_leaf [simp]: "findtext t (node n (leaf t s # cs)) = Some s"
  by (simp add: findtext_def find_child_def node_def leaf_def)

subsection \<open>The principal markets of the manager's report\<close>

lemma market_step_outside:
  "ct \<notin> set market_codes \<Longrightarrow>
   AIFMFivePrincipalMarket counter (ct, code, amount) = Inl (DomainValueError msg_market_domain)"
  by (simp add: AIFMFivePrincipalMarket_def)

lemma market_step_inside:
  assumes "ct \<in> set market_codes"
  shows "AIFMFivePrincipalMarket counter (ct, code, amount) \<noteq> Inl (DomainValueError m)"
proof -
  have "py_len code \<noteq> Inl (DomainValueError m)"
    by (cases code) simp_all
  then show ?thesis
    using assms
    by (auto simp: AIFMFivePrincipalMarket_def then_do_eq_Inl split: if_splits)
qed

lemma market_step_Inr:
  assumes "AIFMFivePrincipalMarket counter (ct, code, amount) = Inr e"
  shows "ct \<in> set market_codes \<and> counter < length ranks
         \<and> findtext ''Ranking'' e = Some (str_int (ranks ! counter))
         \<and> market_code_type e = Some (strip (py_str ct))"
  using assms
  by (auto simp: AIFMFivePrincipalMarket_def then_do_eq_Inr market_code_type_def
        leaf_def node_def findtext_def find_child_def
      split: if_splits)

lemma markets_loop_Inr:
  "AIFMPrincipalMarkets counter rows = Inr es \<Longrightarrow>
   length es = length rows \<and>
   (\<forall>i < length rows. AIFMFivePrincipalMarket (counter + i) (rows ! i) = Inr (es ! i))"
proof (induction rows arbitrary: counter es)
  case Nil
  then show ?case by simp
next
  case (Cons r rows)
  from Cons.prems obtain e es' where
    e: "AIFMFivePrincipalMarket counter r = Inr e" and
    es': "AIFMPrincipalMarkets (Suc counter) rows = Inr es'" and
    es: "es = e # es'"
    by (auto simp: then_do_eq_Inr)
  from Cons.IH [OF es'] have len: "length es' = length rows"
    and ih: "\<And>i. i < length rows \<Longrightarrow>
      AIFMFivePrincipalMarket (Suc counter + i) (rows ! i) = Inr (es' ! i)"
    by simp_all
  show ?case
  proof (intro conjI allI impI)
    show "length es = length (r # rows)" using len es by simp
  next
    fix i assume "i < length (r # rows)"
    then show "AIFMFivePrincipalMarket (counter + i) ((r # rows) ! i) = Inr (es ! i)"
      using e es ih [of "i - 1"] by (cases i) simp_all
  qed
qed

lemma markets_loop_stops:
  "AIFMPrincipalMarkets counter pre = Inr es \<Longrightarrow>
   AIFMFivePrincipalMarket (counter + length pre) row = Inl e \<Longrightarrow>
   AIFMPrincipalMarkets counter (pre @ row # post) = Inl e"
proof (induction pre arbitrary: counter es)
  case Nil
  then show ?case by simp
next
  case (Cons r pre)
  from Cons.prems(1) obtain x es' where
    x: "AIFMFivePrincipalMarket counter r = Inr x" and
    es': "AIFMPrincipalMarkets (Suc counter) pre = Inr es'"
    by (auto simp: then_do_eq_Inr)
  from Cons.prems(2) have "AIFMFivePrincipalMarket (Suc counter + length pre) row = Inl e"
    by simp
  from Cons.IH [OF es' this] show ?case
    using x by simp
qed

lemma aifm_identifier_shape:
  assumes "aifm_identifier d = Inr i"
  shows "i = [] \<or> (\<exists>cs. i = [node ''AIFMIdentifier'' cs])"
proof (cases "d = []")
  case True
  with assms show ?thesis by (simp add: aifm_identifier_def)
next
  case False
  with assms obtain cs where "i = [node ''AIFMIdentifier'' cs]"
    by (auto simp: aifm_identifier_def then_do_eq_Inr)
  then show ?thesis by blast
qed

lemma aifm_document_markets:
  assumes "aifm_document g df = Inr root"
  shows "AIFMPrincipalMarkets 0 (principalMarkets df) = Inr (aifm_markets root)"
proof -
  from assms obtain attrs info where
    info: "AIFMRecordInfo df = Inr info" and root: "root = Element ''AIFMReportingInfo'' attrs None [info]"
    by (auto simp: aifm_document_def then_do_eq_Inr)
  from info obtain head markets instruments aum where
    head: "aifm_record_head df = Inr head" and
    markets: "AIFMPrincipalMarkets 0 (principalMarkets df) = Inr markets" and
    shape: "info = node ''AIFMRecordInfo''
            (fst head @
             [node ''AIFMCompleteDescription''
                (snd head @ [node ''AIFMPrincipalMarkets'' markets,
                             node ''AIFMPrincipalInstruments'' instruments] @ aum)])"
    by (auto simp: AIFMRecordInfo_def then_do_eq_Inr)
  from head obtain d where "aifm_identifier d = Inr (snd head)"
    by (auto simp: aifm_record_head_def then_do_eq_Inr)
  then have "snd head = [] \<or> (\<exists>cs. snd head = [node ''AIFMIdentifier'' cs])"
    by (rule aifm_identifier_shape)
  then have "aifm_markets root = markets"
    by (auto simp: aifm_markets_def root shape node_def find_child_def)
  with markets show ?thesis by simp
qed

lemma aifm_document_stops_at_market:
  assumes "aifm_root_attrib g (tag_input (str_range 1 4) df) = Inr a"
    and "aifm_record_head df = Inr h"
    and "AIFMPrincipalMarkets 0 (principalMarkets df) = Inl e"
  shows "aifm_document g df = Inl e"
  using assms by (simp add: aifm_document_def AIFMRecordInfo_def)


section \<open>The claims\<close>

subsection \<open>The code type of a principal market\<close>

text \<open>
  C7. A principal-market row of the manager's report whose code type is not one of MIC,
  XXX, OTC, NOT makes its turn of the loop raise the domain-value error, so the file is not
  built, and it fails with that very error when everything before the row passed. A code
  type among the four never raises that error, and every tree that is built carries it,
  stripped, as the MarketCodeType of the row's element.
\<close>

theorem aifm_market_code_type_domain:
  assumes rows: "principalMarkets df = pre @ (ct, code, amount) # post"
  shows "(ct \<notin> set market_codes \<longrightarrow>
            AIFMFivePrincipalMarket (length pre) (ct, code, amount)
              = Inl (DomainValueError msg_market_domain)
            \<and> (\<exists>e. aifm_document g df = Inl e)
            \<and> ((\<exists>a. aifm_root_attrib g (tag_input (str_range 1 4) df) = Inr a)
                 \<and> (\<exists>h. aifm_record_head df = Inr h)
                 \<and> (\<exists>es. AIFMPrincipalMarkets 0 pre = Inr es)
               \<longrightarrow> aifm_document g df = Inl (DomainValueError msg_market_domain)))
         \<and> (ct \<in> set market_codes \<longrightarrow>
              (\<forall>m. AIFMFivePrincipalMarket (length pre) (ct, code, amount)
                     \<noteq> Inl (DomainValueError m))
              \<and> (\<forall>root. aifm_document g df = Inr root \<longrightarrow>
                     market_code_type (aifm_markets root ! length pre) = Some (strip (py_str ct))))"
proof (intro conjI impI allI)
  assume out: "ct \<notin> set market_codes"
  show step: "AIFMFivePrincipalMarket (length pre) (ct, code, amount)
           = Inl (DomainValueError msg_market_domain)"
    using out by (rule market_step_outside)
  show "\<exists>e. aifm_document g df = Inl e"
  proof (rule not_Inr_is_Inl)
    fix root
    show "aifm_document g df \<noteq> Inr root"
    proof
      assume "aifm_document g df = Inr root"
      then have "AIFMPrincipalMarkets 0 (pre @ (ct, code, amount) # post) = Inr (aifm_markets root)"
        using rows aifm_document_markets by metis
      from markets_loop_Inr [OF this]
      have "AIFMFivePrincipalMarket (length pre) (ct, code, amount)
              = Inr (aifm_markets root ! length pre)"
        by (auto dest: spec [of _ "length pre"])
      with step show False by simp
    qed
  qed
  assume "(\<exists>a. aifm_root_attrib g (tag_input (str_range 1 4) df) = Inr a)
          \<and> (\<exists>h. aifm_record_head df = Inr h)
          \<and> (\<exists>es. AIFMPrincipalMarkets 0 pre = Inr es)"
  then obtain a h es where a: "aifm_root_attrib g (tag_input (str_range 1 4) df) = Inr a"
    and h: "aifm_record_head df = Inr h" and es: "AIFMPrincipalMarkets 0 pre = Inr es"
    by blast
  from markets_loop_stops [OF es] step
  have "AIFMPrincipalMarkets 0 (principalMarkets df) = Inl (DomainValueError msg_market_domain)"
    using rows by simp
  from aifm_document_stops_at_market [OF a h this]
  show "aifm_document g df = Inl (DomainValueError msg_market_domain)" .
next
  fix m
  assume "ct \<in> set market_codes"
  then show "AIFMFivePrincipalMarket (length pre) (ct, code, amount) \<noteq> Inl (DomainValueError m)"
    by (rule market_step_inside)
next
  fix root
  assume "aifm_document g df = Inr root"
  then have "AIFMPrincipalMarkets 0 (pre @ (ct, code, amount) # post) = Inr (aifm_markets root)"
    using rows aifm_document_markets by metis
  from markets_loop_Inr [OF this]
  have "AIFMFivePrincipalMarket (length pre) (ct, code, amount)
          = Inr (aifm_markets root ! length pre)"
    by (auto dest: spec [of _ "length pre"])
  from market_step_Inr [OF this]
  show "market_code_type (aifm_markets root ! length pre) = Some (strip (py_str ct))"
    by simp
qed

lemma aifm_sheet_markets_rows:
  "principalMarkets aifm_sheet_markets
     = [] @ (PStr ''XXX'', blank, PInt 20) # [(PStr ''MIC'', PStr ''XAMS'', PInt 10)]"
  by code_simp

lemma aifm_sheet_markets_builds:
  "case aifm_document (strftime_aifm noon) aifm_sheet_markets of
     Inl e \<Rightarrow> False | Inr root \<Rightarrow> True"
  by code_simp

lemma aifm_sheet_bad_market_rows:
  "principalMarkets aifm_sheet_bad_market
     = [(PStr ''MIC'', PStr ''XAMS'', PInt 10)] @ (PStr ''REG'', blank, PInt 20) # []"
  by code_simp

lemma aifm_sheet_bad_market_reached:
  "(case aifm_root_attrib (strftime_aifm noon) (tag_input (str_range 1 4) aifm_sheet_bad_market) of
      Inl e \<Rightarrow> False | Inr a \<Rightarrow> True)
   \<and> (case aifm_record_head aifm_sheet_bad_market of Inl e \<Rightarrow> False | Inr a \<Rightarrow> True)
   \<and> (case AIFMPrincipalMarkets 0 [(PStr ''MIC'', PStr ''XAMS'', PInt 10)] of
        Inl e \<Rightarrow> False | Inr a \<Rightarrow> True)"
  by code_simp

theorem aifm_market_code_type_domain_witness:
  "aifm_document (strftime_aifm noon) aifm_sheet_bad_market
     = Inl (DomainValueError msg_market_domain)
   \<and> (\<exists>root. aifm_document (strftime_aifm noon) aifm_sheet_markets = Inr root
        \<and> market_code_type (aifm_markets root ! 0) = Some ''XXX'')"
proof
  have out: "PStr ''REG'' \<notin> set market_codes"
    by (simp add: market_codes_def)
  have reached:
    "(\<exists>a. aifm_root_attrib (strftime_aifm noon) (tag_input (str_range 1 4) aifm_sheet_bad_market) = Inr a)
     \<and> (\<exists>h. aifm_record_head aifm_sheet_bad_market = Inr h)
     \<and> (\<exists>es. AIFMPrincipalMarkets 0 [(PStr ''MIC'', PStr ''XAMS'', PInt 10)] = Inr es)"
    using aifm_sheet_bad_market_reached by (auto split: sum.splits)
  from aifm_market_code_type_domain [OF aifm_sheet_bad_market_rows, of "strftime_aifm noon"]
    out reached
  show "aifm_document (strftime_aifm noon) aifm_sheet_bad_market
          = Inl (DomainValueError msg_market_domain)"
    by blast
next
  have inside: "PStr ''XXX'' \<in> set market_codes"
    by (simp add: market_codes_def)
  from aifm_sheet_markets_builds obtain root where
    root: "aifm_document (strftime_aifm noon) aifm_sheet_markets = Inr root"
    by (auto split: sum.splits)
  from aifm_market_code_type_domain [OF aifm_sheet_markets_rows, of "strftime_aifm noon"]
    inside root
  have "market_code_type (aifm_markets root ! 0) = Some (strip (py_str (PStr ''XXX'')))"
    by simp
  moreover have "strip ''XXX'' = ''XXX''"
    by code_simp
  ultimately show "\<exists>root. aifm_document (strftime_aifm noon) aifm_sheet_markets = Inr root
        \<and> market_code_type (aifm_markets root ! 0) = Some ''XXX''"
    using root by simp
qed

subsection \<open>The ranking of the principal markets\<close>

lemma ranks_eq: "ranks = [1, 2, 3, 4, 5]"
  by (simp add: ranks_def py_range_def upto.simps)

lemma ranks_nth: "i < 5 \<Longrightarrow> ranks ! i = int i + 1"
proof -
  assume "i < 5"
  then have "i = 0 \<or> i = 1 \<or> i = 2 \<or> i = 3 \<or> i = 4" by arith
  then show ?thesis unfolding ranks_eq by auto
qed

lemma length_ranks: "length ranks = 5"
  by (simp add: ranks_eq)

text \<open>
  C8, as the code has it. The claim fails: the rank is the position of the row among the
  selected rows, whatever its identifier. Here the row \<open>2nd\<close> stands above the row \<open>1st\<close>
  and gets rank 1, while the declared pairing of identifiers and ranks gives it 2; with the
  two rows exchanged the same market gets rank 2.
\<close>

theorem aifm_ranking_by_identifier_counterexample:
  "map_of (zip principalMRows ranks) (Id market_second) = Some 2
   \<and> (case AIFMPrincipalMarkets 0 (principalMarkets [market_second, market_first]) of
         Inl e \<Rightarrow> []
       | Inr es \<Rightarrow> map (\<lambda>e. (market_code_type e, findtext ''Ranking'' e)) es)
       = [(Some ''XXX'', Some ''1''), (Some ''MIC'', Some ''2'')]
   \<and> (case AIFMPrincipalMarkets 0 (principalMarkets [market_first, market_second]) of
         Inl e \<Rightarrow> []
       | Inr es \<Rightarrow> map (\<lambda>e. (market_code_type e, findtext ''Ranking'' e)) es)
       = [(Some ''MIC'', Some ''1''), (Some ''XXX'', Some ''2'')]"
  by code_simp

text \<open>
  C8, amended. In every tree that is built there is one market element for each selected
  row, at most five, in the order of the rows in the sheet; the element at position \<open>i\<close>
  (from 0) carries the ranking \<open>i + 1\<close> and the code type of the row at that position.
\<close>

theorem aifm_ranking_by_position:
  assumes "aifm_document g df = Inr root"
  shows "length (aifm_markets root) = length (principalMarkets df)
         \<and> length (principalMarkets df) \<le> 5
         \<and> (\<forall>i < length (principalMarkets df).
               findtext ''Ranking'' (aifm_markets root ! i) = Some (str_int (int i + 1))
               \<and> market_code_type (aifm_markets root ! i)
                   = Some (strip (py_str (fst (principalMarkets df ! i)))))"
proof -
  from assms have loop: "AIFMPrincipalMarkets 0 (principalMarkets df) = Inr (aifm_markets root)"
    by (rule aifm_document_markets)
  from markets_loop_Inr [OF loop]
  have len: "length (aifm_markets root) = length (principalMarkets df)"
    and step: "\<And>i. i < length (principalMarkets df) \<Longrightarrow>
      AIFMFivePrincipalMarket i (principalMarkets df ! i) = Inr (aifm_markets root ! i)"
    by simp_all
  have each: "i < 5 \<and> findtext ''Ranking'' (aifm_markets root ! i) = Some (str_int (int i + 1))
      \<and> market_code_type (aifm_markets root ! i) = Some (strip (py_str (fst (principalMarkets df ! i))))"
    if "i < length (principalMarkets df)" for i
  proof -
    obtain ct code amount where row: "principalMarkets df ! i = (ct, code, amount)"
      by (cases "principalMarkets df ! i") auto
    from step [OF that] row
    have "AIFMFivePrincipalMarket i (ct, code, amount) = Inr (aifm_markets root ! i)"
      by simp
    from market_step_Inr [OF this] show ?thesis
      by (simp add: row length_ranks ranks_nth)
  qed
  have "length (principalMarkets df) \<le> 5"
  proof (rule ccontr)
    assume "\<not> length (principalMarkets df) \<le> 5"
    then have "5 < length (principalMarkets df)" by simp
    from each [OF this] show False by simp
  qed
  with len each show ?thesis by blast
qed

theorem aifm_ranking_by_position_witness:
  "\<exists>root. aifm_document (strftime_aifm noon) aifm_sheet_markets = Inr root
     \<and> length (aifm_markets root) = 2
     \<and> findtext ''Ranking'' (aifm_markets root ! 0) = Some ''1''
     \<and> market_code_type (aifm_markets root ! 0) = Some ''XXX''
     \<and> findtext ''Ranking'' (aifm_markets root ! 1) = Some ''2''
     \<and> market_code_type (aifm_markets root ! 1) = Some ''MIC''"
proof -
  from aifm_sheet_markets_builds obtain root where
    root: "aifm_document (strftime_aifm noon) aifm_sheet_markets = Inr root"
    by (auto split: sum.splits)
  have rows: "principalMarkets aifm_sheet_markets
      = [(PStr ''XXX'', blank, PInt 20), (PStr ''MIC'', PStr ''XAMS'', PInt 10)]"
    using aifm_sheet_markets_rows by simp
  have texts: "str_int 1 = ''1''" "str_int 2 = ''2''" "strip ''XXX'' = ''XXX''" "strip ''MIC'' = ''MIC''"
    by code_simp+
  note pos = aifm_ranking_by_position [OF root, unfolded rows]
  from pos have len: "length (aifm_markets root) = 2"
    by simp
  from pos have each: "i < 2 \<Longrightarrow>
      findtext ''Ranking'' (aifm_markets root ! i) = Some (str_int (int i + 1))
      \<and> market_code_type (aifm_markets root ! i)
          = Some (strip (py_str (fst ([(PStr ''XXX'', blank, PInt 20), (PStr ''MIC'', PStr ''XAMS'', PInt 10)] ! i))))"
    for i by simp
  from each [of 0] each [of 1] len root show ?thesis
    by (simp add: texts)
qed

subsection \<open>The check on the two header fields\<close>

text \<open>
  C10, as the claim states it, fails where the first header value is a number zero: it is
  not the empty string, the second value is, and no error is raised, in either script.
\<close>

theorem header_check_counterexample:
  "PInt 0 \<noteq> PStr ''''
   \<and> aifm_root_attrib ''2020-04-30T12:00:00'' [(''ReportingMemberState'', PInt 0), (''Version'', PStr '''')]
       = Inr [(''xsi:noNamespaceSchemaLocation'', ''AIFMD_DATMAN_V1.2.xsd''),
              (''CreationDateAndTime'', ''2020-04-30T12:00:00''),
              (''ReportingMemberState'', ''0''), (''Version'', ''''),
              (''xmlns:xsi'', xsi_namespace)]
   \<and> aif_root_attrib ''2020-04-30T12:00:00.0Z'' [(''ReportingMemberState'', PInt 0), (''Version'', PStr '''')]
       = Inr [(''xsi:noNamespaceSchemaLocation'', ''AIFMD_DATAIF_V1.2.xsd''),
              (''CreationDateAndTime'', ''2020-04-30T12:00:00.0Z''),
              (''ReportingMemberState'', ''0''), (''Version'', ''''),
              (''xmlns:xsi'', xsi_namespace)]"
  by code_simp

lemma aifm_root_attrib_raises:
  "truthy v0 \<and> v1 = PStr '''' \<Longrightarrow>
   aifm_root_attrib g ((k0, v0) # (k1, v1) # rest)
     = Inl (EmptyValueError ('' '' @ k0 @ '' and '' @ k1 @ '' fields cannot be empty! ''))"
  by (simp add: aifm_root_attrib_def)

lemma aif_root_attrib_raises:
  "truthy v0 \<and> v1 = PStr '''' \<Longrightarrow>
   aif_root_attrib g ((k0, v0) # (k1, v1) # rest)
     = Inl (EmptyValueError (k0 @ '' and '' @ k1 @ '' fields cannot be empty!''))"
  by (simp add: aif_root_attrib_def)

lemma aifm_root_attrib_sets:
  "\<not> (truthy v0 \<and> v1 = PStr '''') \<Longrightarrow>
   aifm_root_attrib g ((k0, v0) # (k1, v1) # rest)
     = Inr (AList.update ''xmlns:xsi'' xsi_namespace
             (AList.update k1 (strip (py_str v1))
             (AList.update k0 (strip (py_str v0))
             (AList.update ''CreationDateAndTime'' g
             (AList.update ''xsi:noNamespaceSchemaLocation'' ''AIFMD_DATMAN_V1.2.xsd'' [])))))"
  by (simp add: aifm_root_attrib_def)

lemma aif_root_attrib_sets:
  "\<not> (truthy v0 \<and> v1 = PStr '''') \<Longrightarrow>
   aif_root_attrib g ((k0, v0) # (k1, v1) # rest)
     = Inr (AList.update ''xmlns:xsi'' xsi_namespace
             (AList.update k1 (strip (py_str v1))
             (AList.update k0 (strip (py_str v0))
             (AList.update ''CreationDateAndTime'' g
             (AList.update ''xsi:noNamespaceSchemaLocation'' ''AIFMD_DATAIF_V1.2.xsd'' [])))))"
  by (simp add: aif_root_attrib_def)

lemma set_then_read:
  "k1 \<noteq> last_key \<Longrightarrow>
   map_of (AList.update last_key w (AList.update k1 x1 (AList.update k0 x0 attrs))) k1 = Some x1"
  "k0 \<noteq> last_key \<Longrightarrow> k0 \<noteq> k1 \<Longrightarrow>
   map_of (AList.update last_key w (AList.update k1 x1 (AList.update k0 x0 attrs))) k0 = Some x0"
  by (simp_all add: update_conv')

lemma aifm_document_attrib:
  "aifm_document g df = Inr root \<Longrightarrow>
   aifm_root_attrib g (tag_input (str_range 1 4) df) = Inr (attrib root)"
  by (auto simp: aifm_document_def then_do_eq_Inr)

lemma aif_document_attrib:
  "aif_document g l df = Inr (root, l') \<Longrightarrow>
   aif_root_attrib g (tag_input (str_range 1 4) df) = Inr (attrib root)"
  by (auto simp: aif_document_def then_do_eq_Inr)

text \<open>
  C10, amended. With two header rows or more, the check raises the empty-value error
  exactly when the first value is true in Python's sense (text that is not empty, a number
  that is not zero, True, a date) and the second is the empty string. In every other case,
  so whenever the first value is the empty string, no error is raised and both values,
  rendered as text and stripped, are set on the root after the schema location and the
  timestamp and before the namespace; each can be read back from the root unless a later
  \<open>set\<close> used the same name. The attributes of a tree that is built are these.
\<close>

theorem header_check:
  assumes hk: "headerFileKeys = (k0, v0) # (k1, v1) # rest"
  shows "((\<exists>e. aifm_root_attrib g headerFileKeys = Inl e) \<longleftrightarrow> truthy v0 \<and> v1 = PStr '''')
       \<and> ((\<exists>e. aif_root_attrib g headerFileKeys = Inl e) \<longleftrightarrow> truthy v0 \<and> v1 = PStr '''')
       \<and> (truthy v0 \<and> v1 = PStr '''' \<longrightarrow>
            aifm_root_attrib g headerFileKeys
              = Inl (EmptyValueError ('' '' @ k0 @ '' and '' @ k1 @ '' fields cannot be empty! ''))
            \<and> aif_root_attrib g headerFileKeys
              = Inl (EmptyValueError (k0 @ '' and '' @ k1 @ '' fields cannot be empty!'')))
       \<and> (\<not> (truthy v0 \<and> v1 = PStr '''') \<longrightarrow>
            (\<exists>attrs. aifm_root_attrib g headerFileKeys
                = Inr (AList.update ''xmlns:xsi'' xsi_namespace
                        (AList.update k1 (strip (py_str v1))
                        (AList.update k0 (strip (py_str v0)) attrs))))
            \<and> (\<exists>attrs. aif_root_attrib g headerFileKeys
                = Inr (AList.update ''xmlns:xsi'' xsi_namespace
                        (AList.update k1 (strip (py_str v1))
                        (AList.update k0 (strip (py_str v0)) attrs))))
            \<and> (\<forall>attrs. aifm_root_attrib g headerFileKeys = Inr attrs
                        \<or> aif_root_attrib g headerFileKeys = Inr attrs \<longrightarrow>
                  (k1 \<noteq> ''xmlns:xsi'' \<longrightarrow> map_of attrs k1 = Some (strip (py_str v1)))
                  \<and> (k0 \<noteq> ''xmlns:xsi'' \<and> k0 \<noteq> k1 \<longrightarrow> map_of attrs k0 = Some (strip (py_str v0)))))
       \<and> (\<forall>df root. tag_input (str_range 1 4) df = headerFileKeys
                     \<and> aifm_document g df = Inr root \<longrightarrow>
              aifm_root_attrib g headerFileKeys = Inr (attrib root))
       \<and> (\<forall>df l root l'. tag_input (str_range 1 4) df = headerFileKeys
                     \<and> aif_document g l df = Inr (root, l') \<longrightarrow>
              aif_root_attrib g headerFileKeys = Inr (attrib root))"
proof -
  let ?hk = "(k0, v0) # (k1, v1) # rest"
  have m_iff: "(\<exists>e. aifm_root_attrib g ?hk = Inl e) \<longleftrightarrow> truthy v0 \<and> v1 = PStr ''''"
  proof (cases "truthy v0 \<and> v1 = PStr ''''")
    case True
    from aifm_root_attrib_raises [OF True, of g k0 k1 rest] True show ?thesis by blast
  next
    case False
    from aifm_root_attrib_sets [OF False, of g k0 k1 rest] False show ?thesis by simp
  qed
  have f_iff: "(\<exists>e. aif_root_attrib g ?hk = Inl e) \<longleftrightarrow> truthy v0 \<and> v1 = PStr ''''"
  proof (cases "truthy v0 \<and> v1 = PStr ''''")
    case True
    from aif_root_attrib_raises [OF True, of g k0 k1 rest] True show ?thesis by blast
  next
    case False
    from aif_root_attrib_sets [OF False, of g k0 k1 rest] False show ?thesis by simp
  qed
  have raises: "truthy v0 \<and> v1 = PStr '''' \<longrightarrow>
            aifm_root_attrib g ?hk
              = Inl (EmptyValueError ('' '' @ k0 @ '' and '' @ k1 @ '' fields cannot be empty! ''))
            \<and> aif_root_attrib g ?hk
              = Inl (EmptyValueError (k0 @ '' and '' @ k1 @ '' fields cannot be empty!''))"
    using aifm_root_attrib_raises [of v0 v1 g k0 k1 rest] aif_root_attrib_raises [of v0 v1 g k0 k1 rest]
    by blast
  have sets: "\<not> (truthy v0 \<and> v1 = PStr '''') \<longrightarrow>
            (\<exists>attrs. aifm_root_attrib g ?hk
                = Inr (AList.update ''xmlns:xsi'' xsi_namespace
                        (AList.update k1 (strip (py_str v1))
                        (AList.update k0 (strip (py_str v0)) attrs))))
            \<and> (\<exists>attrs. aif_root_attrib g ?hk
                = Inr (AList.update ''xmlns:xsi'' xsi_namespace
                        (AList.update k1 (strip (py_str v1))
                        (AList.update k0 (strip (py_str v0)) attrs))))
            \<and> (\<forall>attrs. aifm_root_attrib g ?hk = Inr attrs
                        \<or> aif_root_attrib g ?hk = Inr attrs \<longrightarrow>
                  (k1 \<noteq> ''xmlns:xsi'' \<longrightarrow> map_of attrs k1 = Some (strip (py_str v1)))
                  \<and> (k0 \<noteq> ''xmlns:xsi'' \<and> k0 \<noteq> k1 \<longrightarrow> map_of attrs k0 = Some (strip (py_str v0))))"
  proof
    assume quiet: "\<not> (truthy v0 \<and> v1 = PStr '''')"
    note m = aifm_root_attrib_sets [OF quiet, of g k0 k1 rest]
      and f = aif_root_attrib_sets [OF quiet, of g k0 k1 rest]
    have 1: "\<exists>attrs. aifm_root_attrib g ?hk
                = Inr (AList.update ''xmlns:xsi'' xsi_namespace
                        (AList.update k1 (strip (py_str v1))
                        (AList.update k0 (strip (py_str v0)) attrs)))"
      unfolding m by blast
    have 2: "\<exists>attrs. aif_root_attrib g ?hk
                = Inr (AList.update ''xmlns:xsi'' xsi_namespace
                        (AList.update k1 (strip (py_str v1))
                        (AList.update k0 (strip (py_str v0)) attrs)))"
      unfolding f by blast
    have 3: "\<forall>attrs. aifm_root_attrib g ?hk = Inr attrs
                        \<or> aif_root_attrib g ?hk = Inr attrs \<longrightarrow>
                  (k1 \<noteq> ''xmlns:xsi'' \<longrightarrow> map_of attrs k1 = Some (strip (py_str v1)))
                  \<and> (k0 \<noteq> ''xmlns:xsi'' \<and> k0 \<noteq> k1 \<longrightarrow> map_of attrs k0 = Some (strip (py_str v0)))"
      unfolding m f by (auto simp only: sum.inject intro: set_then_read)
    from 1 2 3 show "(\<exists>attrs. aifm_root_attrib g ?hk
                = Inr (AList.update ''xmlns:xsi'' xsi_namespace
                        (AList.update k1 (strip (py_str v1))
                        (AList.update k0 (strip (py_str v0)) attrs))))
            \<and> (\<exists>attrs. aif_root_attrib g ?hk
                = Inr (AList.update ''xmlns:xsi'' xsi_namespace
                        (AList.update k1 (strip (py_str v1))
                        (AList.update k0 (strip (py_str v0)) attrs))))
            \<and> (\<forall>attrs. aifm_root_attrib g ?hk = Inr attrs
                        \<or> aif_root_attrib g ?hk = Inr attrs \<longrightarrow>
                  (k1 \<noteq> ''xmlns:xsi'' \<longrightarrow> map_of attrs k1 = Some (strip (py_str v1)))
                  \<and> (k0 \<noteq> ''xmlns:xsi'' \<and> k0 \<noteq> k1 \<longrightarrow> map_of attrs k0 = Some (strip (py_str v0))))"
      by (intro conjI)
  qed
  have m_doc: "\<forall>df root. tag_input (str_range 1 4) df = ?hk \<and> aifm_document g df = Inr root \<longrightarrow>
              aifm_root_attrib g ?hk = Inr (attrib root)"
    using aifm_document_attrib [of g] by metis
  have f_doc: "\<forall>df l root l'. tag_input (str_range 1 4) df = ?hk
                     \<and> aif_document g l df = Inr (root, l') \<longrightarrow>
              aif_root_attrib g ?hk = Inr (attrib root)"
    using aif_document_attrib [of g] by metis
  from m_iff f_iff raises sets m_doc f_doc show ?thesis
    unfolding hk by (intro conjI)
qed

lemma header_keys_quiet:
  "aifm_root_attrib ''now'' [(''ReportingMemberState'', PStr ''''), (''Version'', PStr '''')]
     = Inr [(''xsi:noNamespaceSchemaLocation'', ''AIFMD_DATMAN_V1.2.xsd''),
            (''CreationDateAndTime'', ''now''), (''ReportingMemberState'', ''''),
            (''Version'', ''''), (''xmlns:xsi'', xsi_namespace)]"
  "aif_root_attrib ''now'' [(''ReportingMemberState'', PStr ''''), (''Version'', PStr '''')]
     = Inr [(''xsi:noNamespaceSchemaLocation'', ''AIFMD_DATAIF_V1.2.xsd''),
            (''CreationDateAndTime'', ''now''), (''ReportingMemberState'', ''''),
            (''Version'', ''''), (''xmlns:xsi'', xsi_namespace)]"
  by code_simp+

theorem header_check_witness:
  "aifm_root_attrib ''now'' [(''ReportingMemberState'', PStr ''NL''), (''Version'', PStr '''')]
     = Inl (EmptyValueError '' ReportingMemberState and Version fields cannot be empty! '')
   \<and> aif_root_attrib ''now'' [(''ReportingMemberState'', PStr ''NL''), (''Version'', PStr '''')]
     = Inl (EmptyValueError ''ReportingMemberState and Version fields cannot be empty!'')
   \<and> (\<exists>attrs. aifm_root_attrib ''now'' [(''ReportingMemberState'', PStr ''''), (''Version'', PStr '''')]
          = Inr attrs
        \<and> map_of attrs ''ReportingMemberState'' = Some '''' \<and> map_of attrs ''Version'' = Some '''')
   \<and> (\<exists>attrs. aif_root_attrib ''now'' [(''ReportingMemberState'', PStr ''''), (''Version'', PStr '''')]
          = Inr attrs
        \<and> map_of attrs ''ReportingMemberState'' = Some '''' \<and> map_of attrs ''Version'' = Some '''')"
proof -
  have empty: "strip [] = []"
    by (simp add: strip_def)
  note a = header_check [OF refl, of "''now''" "''ReportingMemberState''" "PStr ''NL''"
      "''Version''" "PStr ''''" "[]"]
  note b = header_check [OF refl, of "''now''" "''ReportingMemberState''" "PStr ''''"
      "''Version''" "PStr ''''" "[]"]
  from a have 1:
    "aifm_root_attrib ''now'' [(''ReportingMemberState'', PStr ''NL''), (''Version'', PStr '''')]
       = Inl (EmptyValueError '' ReportingMemberState and Version fields cannot be empty! '')"
    "aif_root_attrib ''now'' [(''ReportingMemberState'', PStr ''NL''), (''Version'', PStr '''')]
       = Inl (EmptyValueError ''ReportingMemberState and Version fields cannot be empty!'')"
    by simp_all
  from b have reads: "\<And>attrs.
      aifm_root_attrib ''now'' [(''ReportingMemberState'', PStr ''''), (''Version'', PStr '''')] = Inr attrs
      \<or> aif_root_attrib ''now'' [(''ReportingMemberState'', PStr ''''), (''Version'', PStr '''')] = Inr attrs
      \<Longrightarrow> map_of attrs ''Version'' = Some '''' \<and> map_of attrs ''ReportingMemberState'' = Some ''''"
    by (auto simp: empty)
  from reads [OF disjI1, OF header_keys_quiet(1)] reads [OF disjI2, OF header_keys_quiet(2)]
    1 header_keys_quiet
  show ?thesis by simp
qed

subsection \<open>The length of the assumption description\<close>

lemma obligation_errors:
  assumes "obligation prefix d = Inl e"
  shows "(\<exists>m. e = EmptyValueError m) \<or> (\<exists>k. e = KeyError k)"
proof -
  have key: "getitem d k = Inl x \<Longrightarrow> x = KeyError k" for k x
    by (auto simp: getitem_def split: option.splits)
  have len: "py_len (PStr []) = Inr 0"
    by simp
  from assms show ?thesis
    by (auto simp: obligation_def then_do_eq_Inl len dest!: key split: if_splits)
qed

text \<open>
  C6. The code does not do what the claim says. The length of the assumption description
  is tested only inside the branch taken when the description is the empty string, so the
  rows 10 to 15 never raise the length error, in either script; and a description that is
  given is not emitted, nor is the question number: here with 300 letters and with 301.
\<close>

theorem assumption_description_length_unchecked:
  "obligation prefix d \<noteq> Inl (LengthValueRequiredError m)
   \<and> (case aifm_document (strftime_aifm noon) (aifm_sheet_assumption 301) of
         Inl e \<Rightarrow> False
       | Inr root \<Rightarrow> findtext ''AssumptionDescription'' (hd (children root)) = None
                    \<and> findtext ''QuestionNumber'' (hd (children root)) = None)
   \<and> (case aifm_document (strftime_aifm noon) (aifm_sheet_assumption 300) of
         Inl e \<Rightarrow> False
       | Inr root \<Rightarrow> findtext ''AssumptionDescription'' (hd (children root)) = None
                    \<and> findtext ''QuestionNumber'' (hd (children root)) = None)"
proof (intro conjI)
  show "obligation prefix d \<noteq> Inl (LengthValueRequiredError m)"
    using obligation_errors [of prefix d "LengthValueRequiredError m"] by auto
  show "case aifm_document (strftime_aifm noon) (aifm_sheet_assumption 301) of
         Inl e \<Rightarrow> False
       | Inr root \<Rightarrow> findtext ''AssumptionDescription'' (hd (children root)) = None
                    \<and> findtext ''QuestionNumber'' (hd (children root)) = None"
    by code_simp
  show "case aifm_document (strftime_aifm noon) (aifm_sheet_assumption 300) of
         Inl e \<Rightarrow> False
       | Inr root \<Rightarrow> findtext ''AssumptionDescription'' (hd (children root)) = None
                    \<and> findtext ''QuestionNumber'' (hd (children root)) = None"
    by code_simp
qed

subsection \<open>The reference rate of a fund not in euro\<close>

text \<open>
  C5. The code of the manager's report does not do what the claim says. With the base
  currency USD, the reference-rate type OTH and no description of the other rate, the
  file is built, with an empty FXEUROtherReferenceRateDescription: line 398 tests the
  currency where line 366 of the fund's script tests the rate type. The fund's script
  raises the empty-value error on the same values.
\<close>

theorem other_reference_rate_description_not_required:
  "aifm_aum (dict_of (tag_input (str_range 33 39) aifm_sheet_usd_oth))
     = Inr [leaf ''AUMAmountInEuro'' ''1000'',
            node ''AIFMBaseCurrencyDescription''
              [leaf ''BaseCurrency'' ''USD'', leaf ''AUMAmountInBaseCurrency'' ''1200'',
               leaf ''FXEURReferenceRateType'' ''OTH'', leaf ''FXEURRate'' ''1.2'',
               leaf ''FXEUROtherReferenceRateDescription'' '''']]
   \<and> (case aifm_document (strftime_aifm noon) aifm_sheet_usd_oth of
         Inl e \<Rightarrow> False | Inr root \<Rightarrow> True)
   \<and> aif_base_currency aif_values_usd_oth = Inl (EmptyValueError msg_aif_other_rate_empty)"
  by code_simp

subsection \<open>The unsigned-integer fields of the manager's report\<close>

lemma not_unsigned_iff: "not_unsigned v \<longleftrightarrow> \<not> (\<exists>n\<ge>0. v = PInt n)"
  by (cases v) auto

lemma market_amount_rejected:
  assumes "ct \<in> set (map PStr [''MIC'', ''XXX'', ''OTC''])" and "counter < 5"
    and "ct = PStr ''MIC'' \<longrightarrow> (\<exists>s. code = PStr s \<and> s \<noteq> [] \<and> length s \<le> 4)"
    and "not_unsigned amount"
  shows "AIFMFivePrincipalMarket counter (ct, code, amount)
         = Inl (UnassinedIntegerError msg_market_amount_unsigned)"
  using assms
  by (auto simp: AIFMFivePrincipalMarket_def market_codes_def length_ranks)

lemma market_amount_emitted:
  assumes "ct \<in> set (map PStr [''MIC'', ''XXX'', ''OTC''])" and "counter < 5"
    and "ct = PStr ''MIC'' \<longrightarrow> (\<exists>s. code = PStr s \<and> s \<noteq> [] \<and> length s \<le> 4)"
    and "0 \<le> n"
  shows "\<exists>e. AIFMFivePrincipalMarket counter (ct, code, PInt n) = Inr e
           \<and> findtext ''AggregatedValueAmount'' e = Some (str_int n)"
  using assms
  by (auto simp: AIFMFivePrincipalMarket_def market_codes_def length_ranks
        findtext_def find_child_def node_def leaf_def)

lemma instrument_amount_rejected:
  assumes "sub \<noteq> PStr ''''" "sub \<noteq> PStr ''NTA_NTA_NOTA''" "amount \<noteq> PStr ''''"
    and "not_unsigned amount"
  shows "AIFMPrincipalInstrument (rid, sub, amount)
         = Inl (UnassinedIntegerError msg_instrument_amount_unsigned)"
  using assms by (simp add: AIFMPrincipalInstrument_def)

lemma instrument_amount_emitted:
  assumes "sub \<noteq> PStr ''''" "sub \<noteq> PStr ''NTA_NTA_NOTA''" "0 \<le> n"
  shows "\<exists>e. AIFMPrincipalInstrument (rid, sub, PInt n) = Inr e
           \<and> findtext ''AggregatedValueAmount'' e = Some (str_int n)"
  using assms
  by (simp add: AIFMPrincipalInstrument_def findtext_def find_child_def node_def leaf_def)

lemma aum_euro_rejected:
  assumes "getitem d ''AUMAmountInEuro'' = Inr euro" "euro \<noteq> PStr ''''" "not_unsigned euro"
  shows "aifm_aum d = Inl (UnassinedIntegerError msg_aum_euro_unsigned)"
  using assms by (simp add: aifm_aum_def)

lemma aum_euro_emitted:
  assumes "getitem d ''AUMAmountInEuro'' = Inr (PInt n)" "0 \<le> n" "aifm_aum d = Inr es"
  shows "hd es = leaf ''AUMAmountInEuro'' (str_int n)"
  using assms by (auto simp: aifm_aum_def then_do_eq_Inr)

lemma aum_base_rejected:
  assumes "getitem d ''AUMAmountInBaseCurrency'' = Inr aum" "truthy aum"
    and "getitem d ''BaseCurrency'' = Inr bc" "bc \<noteq> PStr ''''" "not_unsigned aum"
  shows "aifm_base_currency d = Inl (UnassinedIntegerError msg_aum_base_unsigned)"
  using assms by (simp add: aifm_base_currency_def)

lemma aum_base_emitted:
  assumes "getitem d ''AUMAmountInBaseCurrency'' = Inr (PInt n)" "0 < n"
    and "getitem d ''BaseCurrency'' = Inr bc" "bc \<noteq> PStr ''''"
    and "aifm_base_currency d = Inr es"
  shows "es ! 1 = leaf ''AUMAmountInBaseCurrency'' (str_int n)"
  using assms by (auto simp: aifm_base_currency_def then_do_eq_Inr)

text \<open>
  C4, as the claim states it, fails by the design of the loop over the markets: the amount
  of a row of code type NOT is neither tested nor emitted. Here a negative amount is not
  rejected, and an amount of 7 does not reach the tree.
\<close>

theorem unsigned_integer_fields_counterexample:
  "AIFMFivePrincipalMarket 0 (PStr ''NOT'', blank, PInt (- 5))
     = Inr (node ''AIFMFivePrincipalMarket''
              [leaf ''Ranking'' ''1'',
               node ''MarketIdentification'' [leaf ''MarketCodeType'' ''NOT'']])
   \<and> AIFMFivePrincipalMarket 0 (PStr ''NOT'', blank, PInt 7)
     = Inr (node ''AIFMFivePrincipalMarket''
              [leaf ''Ranking'' ''1'',
               node ''MarketIdentification'' [leaf ''MarketCodeType'' ''NOT'']])"
  by code_simp

text \<open>
  C4, amended. A value is unsigned when it is a Python int that is not negative;
  text, a float and a truth value are not. The amount of a principal market is tested
  when the code type is MIC, XXX or OTC (and the market code of a MIC row is text of one
  to four characters, and the row is among the first five); the amount of a principal
  instrument when the sub-asset type is given and is not NTA_NTA_NOTA; the assets in euro
  when given; the assets in the base currency when they are true in Python's sense and
  the base currency is given. Where a value is tested, one that is not unsigned raises the
  unsigned-integer error, and one that is unsigned is emitted as its decimal text, in the
  element of its row or, for the two assets, in every result of the section.
\<close>

theorem unsigned_integer_fields:
  "(not_unsigned v \<longleftrightarrow> \<not> (\<exists>n\<ge>0. v = PInt n))
   \<and> (ct \<in> set (map PStr [''MIC'', ''XXX'', ''OTC'']) \<and> counter < 5
       \<and> (ct = PStr ''MIC'' \<longrightarrow> (\<exists>s. code = PStr s \<and> s \<noteq> [] \<and> length s \<le> 4)) \<longrightarrow>
        (not_unsigned v \<longrightarrow>
           AIFMFivePrincipalMarket counter (ct, code, v)
             = Inl (UnassinedIntegerError msg_market_amount_unsigned))
        \<and> (0 \<le> n \<longrightarrow>
             (\<exists>e. AIFMFivePrincipalMarket counter (ct, code, PInt n) = Inr e
                \<and> findtext ''AggregatedValueAmount'' e = Some (str_int n))))
   \<and> (sub \<noteq> PStr '''' \<and> sub \<noteq> PStr ''NTA_NTA_NOTA'' \<longrightarrow>
        (v \<noteq> PStr '''' \<and> not_unsigned v \<longrightarrow>
           AIFMPrincipalInstrument (rid, sub, v)
             = Inl (UnassinedIntegerError msg_instrument_amount_unsigned))
        \<and> (0 \<le> n \<longrightarrow>
             (\<exists>e. AIFMPrincipalInstrument (rid, sub, PInt n) = Inr e
                \<and> findtext ''AggregatedValueAmount'' e = Some (str_int n))))
   \<and> (getitem d ''AUMAmountInEuro'' = Inr v \<and> v \<noteq> PStr '''' \<and> not_unsigned v \<longrightarrow>
        aifm_aum d = Inl (UnassinedIntegerError msg_aum_euro_unsigned))
   \<and> (getitem d ''AUMAmountInEuro'' = Inr (PInt n) \<and> 0 \<le> n \<and> aifm_aum d = Inr es \<longrightarrow>
        hd es = leaf ''AUMAmountInEuro'' (str_int n))
   \<and> (getitem d ''AUMAmountInBaseCurrency'' = Inr v \<and> truthy v
       \<and> getitem d ''BaseCurrency'' = Inr bc \<and> bc \<noteq> PStr '''' \<and> not_unsigned v \<longrightarrow>
        aifm_base_currency d = Inl (UnassinedIntegerError msg_aum_base_unsigned))
   \<and> (getitem d ''AUMAmountInBaseCurrency'' = Inr (PInt n) \<and> 0 < n
       \<and> getitem d ''BaseCurrency'' = Inr bc \<and> bc \<noteq> PStr '''' \<and> aifm_base_currency d = Inr es \<longrightarrow>
        es ! 1 = leaf ''AUMAmountInBaseCurrency'' (str_int n))"
proof (intro conjI impI)
  show "not_unsigned v \<longleftrightarrow> \<not> (\<exists>n\<ge>0. v = PInt n)"
    by (rule not_unsigned_iff)
next
  assume "ct \<in> set (map PStr [''MIC'', ''XXX'', ''OTC'']) \<and> counter < 5
       \<and> (ct = PStr ''MIC'' \<longrightarrow> (\<exists>s. code = PStr s \<and> s \<noteq> [] \<and> length s \<le> 4))"
    and "not_unsigned v"
  then show "AIFMFivePrincipalMarket counter (ct, code, v)
             = Inl (UnassinedIntegerError msg_market_amount_unsigned)"
    using market_amount_rejected [of ct counter code v] by blast
next
  assume "ct \<in> set (map PStr [''MIC'', ''XXX'', ''OTC'']) \<and> counter < 5
       \<and> (ct = PStr ''MIC'' \<longrightarrow> (\<exists>s. code = PStr s \<and> s \<noteq> [] \<and> length s \<le> 4))"
    and "0 \<le> n"
  then show "\<exists>e. AIFMFivePrincipalMarket counter (ct, code, PInt n) = Inr e
                \<and> findtext ''AggregatedValueAmount'' e = Some (str_int n)"
    using market_amount_emitted [of ct counter code n] by blast
next
  assume "sub \<noteq> PStr '''' \<and> sub \<noteq> PStr ''NTA_NTA_NOTA''" and "v \<noteq> PStr '''' \<and> not_unsigned v"
  then show "AIFMPrincipalInstrument (rid, sub, v)
             = Inl (UnassinedIntegerError msg_instrument_amount_unsigned)"
    using instrument_amount_rejected [of sub v rid] by blast
next
  assume "sub \<noteq> PStr '''' \<and> sub \<noteq> PStr ''NTA_NTA_NOTA''" and "0 \<le> n"
  then show "\<exists>e. AIFMPrincipalInstrument (rid, sub, PInt n) = Inr e
                \<and> findtext ''AggregatedValueAmount'' e = Some (str_int n)"
    using instrument_amount_emitted [of sub n rid] by blast
next
  assume "getitem d ''AUMAmountInEuro'' = Inr v \<and> v \<noteq> PStr '''' \<and> not_unsigned v"
  then show "aifm_aum d = Inl (UnassinedIntegerError msg_aum_euro_unsigned)"
    using aum_euro_rejected [of d v] by blast
next
  assume "getitem d ''AUMAmountInEuro'' = Inr (PInt n) \<and> 0 \<le> n \<and> aifm_aum d = Inr es"
  then show "hd es = leaf ''AUMAmountInEuro'' (str_int n)"
    using aum_euro_emitted [of d n es] by blast
next
  assume "getitem d ''AUMAmountInBaseCurrency'' = Inr v \<and> truthy v
       \<and> getitem d ''BaseCurrency'' = Inr bc \<and> bc \<noteq> PStr '''' \<and> not_unsigned v"
  then show "aifm_base_currency d = Inl (UnassinedIntegerError msg_aum_base_unsigned)"
    using aum_base_rejected [of d v bc] by blast
next
  assume "getitem d ''AUMAmountInBaseCurrency'' = Inr (PInt n) \<and> 0 < n
       \<and> getitem d ''BaseCurrency'' = Inr bc \<and> bc \<noteq> PStr '''' \<and> aifm_base_currency d = Inr es"
  then show "es ! 1 = leaf ''AUMAmountInBaseCurrency'' (str_int n)"
    using aum_base_emitted [of d n bc es] by blast
qed

lemma usd_assets_build:
  "aifm_base_currency (dict_of (tag_input (str_range 33 39) aifm_sheet_usd_oth))
     = Inr [leaf ''BaseCurrency'' ''USD'', leaf ''AUMAmountInBaseCurrency'' ''1200'',
            leaf ''FXEURReferenceRateType'' ''OTH'', leaf ''FXEURRate'' ''1.2'',
            leaf ''FXEUROtherReferenceRateDescription'' '''']"
  "getitem (dict_of (tag_input (str_range 33 39) aifm_sheet_usd_oth)) ''AUMAmountInBaseCurrency''
     = Inr (PInt 1200)"
  "getitem (dict_of (tag_input (str_range 33 39) aifm_sheet_usd_oth)) ''BaseCurrency''
     = Inr (PStr ''USD'')"
  "getitem (dict_of (tag_input (str_range 33 39) aifm_sheet_usd_oth)) ''AUMAmountInEuro''
     = Inr (PInt 1000)"
  "case aifm_aum (dict_of (tag_input (str_range 33 39) aifm_sheet_usd_oth)) of
     Inl e \<Rightarrow> False | Inr es \<Rightarrow> True"
  by code_simp+

theorem unsigned_integer_fields_witness:
  "AIFMFivePrincipalMarket 0 (PStr ''XXX'', blank, PFloat FPos ''1.5'')
     = Inl (UnassinedIntegerError msg_market_amount_unsigned)
   \<and> (\<exists>e. AIFMFivePrincipalMarket 0 (PStr ''XXX'', blank, PInt 0) = Inr e
         \<and> findtext ''AggregatedValueAmount'' e = Some (str_int 0))
   \<and> AIFMPrincipalInstrument (IdInt 1, PStr ''SEC_CSH_CODP'', PInt (- 3))
     = Inl (UnassinedIntegerError msg_instrument_amount_unsigned)
   \<and> (\<exists>e. AIFMPrincipalInstrument (IdInt 1, PStr ''SEC_CSH_CODP'', PInt 20) = Inr e
         \<and> findtext ''AggregatedValueAmount'' e = Some (str_int 20))
   \<and> aifm_aum [(''AUMAmountInEuro'', PStr ''12'')]
     = Inl (UnassinedIntegerError msg_aum_euro_unsigned)
   \<and> aifm_base_currency [(''AUMAmountInBaseCurrency'', PInt (- 1)), (''BaseCurrency'', PStr ''USD'')]
     = Inl (UnassinedIntegerError msg_aum_base_unsigned)
   \<and> (\<exists>es. aifm_base_currency (dict_of (tag_input (str_range 33 39) aifm_sheet_usd_oth)) = Inr es
         \<and> es ! 1 = leaf ''AUMAmountInBaseCurrency'' (str_int 1200))
   \<and> (\<exists>es. aifm_aum (dict_of (tag_input (str_range 33 39) aifm_sheet_usd_oth)) = Inr es
         \<and> hd es = leaf ''AUMAmountInEuro'' (str_int 1000))"
proof -
  from usd_assets_build(5) obtain assets where
    assets: "aifm_aum (dict_of (tag_input (str_range 33 39) aifm_sheet_usd_oth)) = Inr assets"
    by (auto split: sum.splits)
  have in_euro: "getitem (dict_of (tag_input (str_range 33 39) aifm_sheet_usd_oth)) ''AUMAmountInEuro''
        = Inr (PInt 1000) \<and> (0::int) \<le> 1000
      \<and> aifm_aum (dict_of (tag_input (str_range 33 39) aifm_sheet_usd_oth)) = Inr assets"
    using usd_assets_build(4) assets by simp
  note euro_good = unsigned_integer_fields [of _ _ _ _ 1000 _ _
        "dict_of (tag_input (str_range 33 39) aifm_sheet_usd_oth)" assets,
      THEN conjunct2, THEN conjunct2, THEN conjunct2, THEN conjunct2, THEN conjunct1,
      THEN mp, OF in_euro]
  from euro_good assets have 6:
    "\<exists>es. aifm_aum (dict_of (tag_input (str_range 33 39) aifm_sheet_usd_oth)) = Inr es
         \<and> hd es = leaf ''AUMAmountInEuro'' (str_int 1000)"
    by simp
  have xxx: "PStr ''XXX'' \<in> set (map PStr [''MIC'', ''XXX'', ''OTC'']) \<and> (0::nat) < 5
      \<and> (PStr ''XXX'' = PStr ''MIC'' \<longrightarrow> (\<exists>s. blank = PStr s \<and> s \<noteq> [] \<and> length s \<le> 4))"
    by simp
  have sec: "PStr ''SEC_CSH_CODP'' \<noteq> PStr '''' \<and> PStr ''SEC_CSH_CODP'' \<noteq> PStr ''NTA_NTA_NOTA''"
    by simp
  have euro: "getitem [(''AUMAmountInEuro'', PStr ''12'')] ''AUMAmountInEuro'' = Inr (PStr ''12'')
      \<and> PStr ''12'' \<noteq> PStr '''' \<and> not_unsigned (PStr ''12'')"
    by (simp add: getitem_def)
  have base: "getitem [(''AUMAmountInBaseCurrency'', PInt (- 1)), (''BaseCurrency'', PStr ''USD'')]
        ''AUMAmountInBaseCurrency'' = Inr (PInt (- 1)) \<and> truthy (PInt (- 1))
      \<and> getitem [(''AUMAmountInBaseCurrency'', PInt (- 1)), (''BaseCurrency'', PStr ''USD'')]
          ''BaseCurrency'' = Inr (PStr ''USD'')
      \<and> PStr ''USD'' \<noteq> PStr '''' \<and> not_unsigned (PInt (- 1))"
    by (simp add: getitem_def)
  have usd: "getitem (dict_of (tag_input (str_range 33 39) aifm_sheet_usd_oth)) ''AUMAmountInBaseCurrency''
        = Inr (PInt 1200) \<and> (0::int) < 1200
      \<and> getitem (dict_of (tag_input (str_range 33 39) aifm_sheet_usd_oth)) ''BaseCurrency''
        = Inr (PStr ''USD'')
      \<and> PStr ''USD'' \<noteq> PStr ''''
      \<and> aifm_base_currency (dict_of (tag_input (str_range 33 39) aifm_sheet_usd_oth))
        = Inr [leaf ''BaseCurrency'' ''USD'', leaf ''AUMAmountInBaseCurrency'' ''1200'',
            leaf ''FXEURReferenceRateType'' ''OTH'', leaf ''FXEURRate'' ''1.2'',
            leaf ''FXEUROtherReferenceRateDescription'' '''']"
    using usd_assets_build by simp
  note market = unsigned_integer_fields [of "PFloat FPos ''1.5''" "PStr ''XXX''" 0 blank 0,
      THEN conjunct2, THEN conjunct1, THEN mp, OF xxx]
  note instrument_bad = unsigned_integer_fields [of "PInt (- 3)" _ _ _ _ "PStr ''SEC_CSH_CODP''" "IdInt 1",
      THEN conjunct2, THEN conjunct2, THEN conjunct1, THEN mp, OF sec, THEN conjunct1]
  note instrument_good = unsigned_integer_fields [of _ _ _ _ 20 "PStr ''SEC_CSH_CODP''" "IdInt 1",
      THEN conjunct2, THEN conjunct2, THEN conjunct1, THEN mp, OF sec, THEN conjunct2]
  note euro_bad = unsigned_integer_fields [of "PStr ''12''" _ _ _ _ _ _ "[(''AUMAmountInEuro'', PStr ''12'')]",
      THEN conjunct2, THEN conjunct2, THEN conjunct2, THEN conjunct1, THEN mp, OF euro]
  note base_bad = unsigned_integer_fields [of "PInt (- 1)" _ _ _ _ _ _
        "[(''AUMAmountInBaseCurrency'', PInt (- 1)), (''BaseCurrency'', PStr ''USD'')]" _ "PStr ''USD''",
      THEN conjunct2, THEN conjunct2, THEN conjunct2, THEN conjunct2, THEN conjunct2, THEN conjunct1,
      THEN mp, OF base]
  note base_good = unsigned_integer_fields [of _ _ _ _ 1200 _ _
        "dict_of (tag_input (str_range 33 39) aifm_sheet_usd_oth)" _ "PStr ''USD''",
      THEN conjunct2, THEN conjunct2, THEN conjunct2, THEN conjunct2, THEN conjunct2, THEN conjunct2,
      THEN mp, OF usd]
  from market have 1: "AIFMFivePrincipalMarket 0 (PStr ''XXX'', blank, PFloat FPos ''1.5'')
     = Inl (UnassinedIntegerError msg_market_amount_unsigned)"
    and 2: "\<exists>e. AIFMFivePrincipalMarket 0 (PStr ''XXX'', blank, PInt 0) = Inr e
         \<and> findtext ''AggregatedValueAmount'' e = Some (str_int 0)"
    by simp_all
  from instrument_bad have 3: "AIFMPrincipalInstrument (IdInt 1, PStr ''SEC_CSH_CODP'', PInt (- 3))
     = Inl (UnassinedIntegerError msg_instrument_amount_unsigned)"
    by simp
  from instrument_good have 4: "\<exists>e. AIFMPrincipalInstrument (IdInt 1, PStr ''SEC_CSH_CODP'', PInt 20) = Inr e
         \<and> findtext ''AggregatedValueAmount'' e = Some (str_int 20)"
    by simp
  from base_good usd have 5:
    "\<exists>es. aifm_base_currency (dict_of (tag_input (str_range 33 39) aifm_sheet_usd_oth)) = Inr es
         \<and> es ! 1 = leaf ''AUMAmountInBaseCurrency'' (str_int 1200)"
    by simp
  from 1 2 3 4 euro_bad base_bad 5 6 show ?thesis
    by (intro conjI)
qed

end
